theory Spec2Isabelle
  imports Main "HOL-Library.Sublist"
begin

section \<open>JavaScript values as the client sees them\<close>

text \<open>
  The client is TypeScript over axios. Response payloads are typed \<open>any\<close>, so the
  model keeps them as JSON values and spells out the JavaScript operators the client
  applies to them: property access (which throws a TypeError on \<open>null\<close> and
  \<open>undefined\<close>), optional chaining \<open>?.\<close>, truthiness, \<open>||\<close>, template-literal
  conversion and \<open>includes\<close>. Numbers are the integers the API carries (ids, sizes,
  version numbers, HTTP statuses), all far below the range where a double stops being
  exact. An object is its list of own properties; a property that is missing reads as
  \<open>undefined\<close>, as does a property whose value is \<open>undefined\<close>.
\<close>

datatype json =
    JUndefined
  | JNull
  | JBool bool
  | JNum int
  | JStr string
  | JArr "json list"
  | JObj "(string \<times> json) list"

datatype error_code =
    PAGE_NOT_FOUND
  | INSUFFICIENT_PERMISSIONS
  | EMPTY_CONTENT
  | LABEL_EXISTS
  | LABEL_NOT_FOUND
  | SEARCH_FAILED
  | UNKNOWN

text \<open>
  What an HTTP error carries: \<open>error.response.status\<close> and \<open>error.response.data\<close>.
  An axios error has a message and, unless the request never got an answer, a response.
  \<open>ConfluenceError (message, code)\<close> is the domain error of \<open>types/index\<close>;
  \<open>Error\<close> is the built-in one and \<open>TypeError\<close> what the runtime throws on a
  property read of \<open>null\<close>/\<open>undefined\<close> or a call of a non-function.
\<close>

datatype http_response = Response (status: int) (data: json)

datatype exn =
    AxiosError string "http_response option"
  | ConfluenceError string error_code
  | Error string
  | TypeError

definition nullish :: "json \<Rightarrow> bool" where
  "nullish v = (v = JUndefined \<or> v = JNull)"

fun truthy :: "json \<Rightarrow> bool" where
  "truthy JUndefined = False"
| "truthy JNull = False"
| "truthy (JBool b) = b"
| "truthy (JNum n) = (n \<noteq> 0)"
| "truthy (JStr s) = (s \<noteq> [])"
| "truthy (JArr xs) = True"
| "truthy (JObj kvs) = True"

text \<open>\<open>a || b\<close> for a right operand without effects.\<close>

definition js_or :: "json \<Rightarrow> json \<Rightarrow> json" where
  "js_or a b = (if truthy a then a else b)"

text \<open>
  \<open>field v k\<close> is \<open>v.k\<close> for a \<open>v\<close> that is neither \<open>null\<close> nor \<open>undefined\<close>
  (on those the read throws, which each method spells out before it reads), and
  \<open>opt_prop v k\<close> is \<open>v?.k\<close>.
  None of the names this client reads (\<open>id\<close>, \<open>title\<close>, \<open>status\<close>, \<open>space\<close>,
  \<open>_links\<close>, \<open>version\<close>, \<open>body\<close>, \<open>storage\<close>, \<open>value\<close>, \<open>history\<close>,
  \<open>createdBy\<close>, \<open>accountId\<close>, \<open>createdDate\<close>, \<open>results\<close>, \<open>size\<close>, \<open>key\<close>,
  \<open>name\<close>, \<open>type\<close>, \<open>webui\<close>, \<open>when\<close>, \<open>excerpt\<close>, \<open>next\<close>, \<open>message\<close>) is a
  property of a string, number, boolean or array, so these read as \<open>undefined\<close> there.
\<close>

fun field :: "json \<Rightarrow> string \<Rightarrow> json" where
  "field (JObj kvs) k = (case map_of kvs k of None \<Rightarrow> JUndefined | Some v \<Rightarrow> v)"
| "field v k = JUndefined"

definition opt_prop :: "json \<Rightarrow> string \<Rightarrow> json" where
  "opt_prop v k = (if nullish v then JUndefined else field v k)"

text \<open>\<open>v[0]\<close> for a \<open>v\<close> that is neither \<open>null\<close> nor \<open>undefined\<close>.\<close>

fun index0 :: "json \<Rightarrow> json" where
  "index0 (JArr (x # xs)) = x"
| "index0 (JStr (c # cs)) = JStr [c]"
| "index0 (JObj kvs) = field (JObj kvs) ''0''"
| "index0 v = JUndefined"

text \<open>\<open>hay.includes(needle)\<close> on strings: \<open>needle\<close> occurs as a contiguous run.\<close>

fun str_includes :: "string \<Rightarrow> string \<Rightarrow> bool" where
  "str_includes [] needle = (needle = [])"
| "str_includes (c # cs) needle = (prefix needle (c # cs) \<or> str_includes cs needle)"

text \<open>
  \<open>v?.includes(needle)\<close>: \<open>undefined\<close> on \<open>null\<close>/\<open>undefined\<close>, the substring test on
  a string, the membership test on an array, and a TypeError on anything else, which
  has no \<open>includes\<close> to call.
\<close>

fun opt_includes :: "json \<Rightarrow> string \<Rightarrow> exn + json" where
  "opt_includes JUndefined needle = Inr JUndefined"
| "opt_includes JNull needle = Inr JUndefined"
| "opt_includes (JStr s) needle = Inr (JBool (str_includes s needle))"
| "opt_includes (JArr xs) needle = Inr (JBool (List.member xs (JStr needle)))"
| "opt_includes v needle = Inl TypeError"

fun join :: "string \<Rightarrow> string list \<Rightarrow> string" where
  "join sep [] = []"
| "join sep [x] = x"
| "join sep (x # y # ys) = x @ sep @ join sep (y # ys)"

definition digit :: "nat \<Rightarrow> char" where
  "digit d = char_of (48 + d)"

function dec_nat :: "nat \<Rightarrow> string" where
  "dec_nat n = (if n < 10 then [digit n] else dec_nat (n div 10) @ [digit (n mod 10)])"
  by pat_completeness auto
termination
  by (relation "measure id") auto

declare dec_nat.simps [simp del]

definition dec_int :: "int \<Rightarrow> string" where
  "dec_int i = (if i < 0 then CHR ''-'' # dec_nat (nat (- i)) else dec_nat (nat i))"

text \<open>The string a template literal \<open>`${v}`\<close> puts in.\<close>

fun js_to_string :: "json \<Rightarrow> string" where
  "js_to_string JUndefined = ''undefined''"
| "js_to_string JNull = ''null''"
| "js_to_string (JBool b) = (if b then ''true'' else ''false'')"
| "js_to_string (JNum n) = dec_int n"
| "js_to_string (JStr s) = s"
| "js_to_string (JArr xs) =
     join '','' (map (\<lambda>x. if x = JUndefined \<or> x = JNull then [] else js_to_string x) xs)"
| "js_to_string (JObj kvs) = ''[object Object]''"

text \<open>\<open>"${s}"\<close>: the text between two double quotes.\<close>

definition quoted :: "string \<Rightarrow> string" where
  "quoted s = [CHR 0x22] @ s @ [CHR 0x22]"

section \<open>Transport, clock and the world a call runs in\<close>

text \<open>
  Each operation is one request/response cycle (two for the legacy update) over the
  shared axios instance. A request is what the client hands to axios: the instance's
  base URL, the method, the relative path, the query parameters and the body
  (\<open>undefined\<close> when there is none). The remote service is a function of the requests
  sent so far and the current one; it answers with the response payload or makes axios
  throw. \<open>new Date().toISOString()\<close> reads a clock whose successive readings are
  \<open>clock 0\<close>, \<open>clock 1\<close>, ... Diagnostics written to stderr and the credential headers
  of the instance are left out.
\<close>

datatype http_method = GET | POST | PUT | DELETE

record request =
  req_base :: string
  req_method :: http_method
  req_path :: string
  req_params :: "(string \<times> json) list"
  req_body :: json

record world =
  server :: "request list \<Rightarrow> request \<Rightarrow> exn + json"
  clock :: "nat \<Rightarrow> string"
  sent :: "request list"
  clock_reads :: nat

type_synonym 'a io = "world \<Rightarrow> (exn + 'a) \<times> world"

definition http :: "request \<Rightarrow> json io" where
  "http r w = (server w (sent w) r, w\<lparr>sent := sent w @ [r]\<rparr>)"

definition now_iso :: "world \<Rightarrow> string \<times> world" where
  "now_iso w = (clock w (clock_reads w), w\<lparr>clock_reads := Suc (clock_reads w)\<rparr>)"

text \<open>\<open>xs.map(f)\<close> for a callback that may throw and may read the clock.\<close>

fun map_io :: "('a \<Rightarrow> 'b io) \<Rightarrow> 'a list \<Rightarrow> 'b list io" where
  "map_io f [] w = (Inr [], w)"
| "map_io f (x # xs) w =
     (case f x w of
        (Inl e, w1) \<Rightarrow> (Inl e, w1)
      | (Inr y, w1) \<Rightarrow>
          (case map_io f xs w1 of
             (Inl e, w2) \<Rightarrow> (Inl e, w2)
           | (Inr ys, w2) \<Rightarrow> (Inr (y # ys), w2)))"

text \<open>A default parameter \<open>limit = 25\<close>: the default stands in for a missing argument.\<close>

definition or_default :: "int option \<Rightarrow> int \<Rightarrow> int" where
  "or_default a d = (case a of None \<Rightarrow> d | Some v \<Rightarrow> v)"

text \<open>
  \<open>if (s) xs.push(f(s))\<close> and \<open>...(s && {...})\<close> on an optional string parameter:
  a missing and an empty string both add nothing.
\<close>

definition when_given :: "string option \<Rightarrow> (string \<Rightarrow> 'a) \<Rightarrow> 'a list" where
  "when_given a f = (case a of None \<Rightarrow> [] | Some s \<Rightarrow> if s = [] then [] else [f s])"

section \<open>The legacy client\<close>

text \<open>
  The class \<open>ConfluenceClient\<close> of \<open>client/confluence-client.ts\<close>. Its constructor
  keeps the domain, derives \<open>baseURL\<close> and \<open>apiPath\<close> and creates the axios instance
  on \<open>baseURL + apiPath\<close>.
\<close>

record ConfluenceConfig =
  cfg_domain :: string
  cfg_email :: string
  cfg_apiToken :: string

record client =
  domain :: string
  baseURL :: string
  apiPath :: string
  client_baseURL :: string

definition ConfluenceClient :: "ConfluenceConfig \<Rightarrow> client" where
  "ConfluenceClient config =
     \<lparr>domain = cfg_domain config,
      baseURL = ''https://'' @ cfg_domain config,
      apiPath = ''/rest/api'',
      client_baseURL = (''https://'' @ cfg_domain config) @ ''/rest/api''\<rparr>"

definition axios_get :: "string \<Rightarrow> string \<Rightarrow> (string \<times> json) list \<Rightarrow> json io" where
  "axios_get base p ps =
     http \<lparr>req_base = base, req_method = GET, req_path = p, req_params = ps,
           req_body = JUndefined\<rparr>"

definition axios_delete :: "string \<Rightarrow> string \<Rightarrow> (string \<times> json) list \<Rightarrow> json io" where
  "axios_delete base p ps =
     http \<lparr>req_base = base, req_method = DELETE, req_path = p, req_params = ps,
           req_body = JUndefined\<rparr>"

definition axios_post :: "string \<Rightarrow> string \<Rightarrow> json \<Rightarrow> json io" where
  "axios_post base p b =
     http \<lparr>req_base = base, req_method = POST, req_path = p, req_params = [],
           req_body = b\<rparr>"

definition axios_put :: "string \<Rightarrow> string \<Rightarrow> json \<Rightarrow> json io" where
  "axios_put base p b =
     http \<lparr>req_base = base, req_method = PUT, req_path = p, req_params = [],
           req_body = b\<rparr>"

text \<open>\<open>error.response?.status\<close>, \<open>error.response?.data\<close>.\<close>

definition response_status :: "http_response option \<Rightarrow> int option" where
  "response_status r = map_option status r"

definition response_data :: "http_response option \<Rightarrow> json" where
  "response_data r = (case r of None \<Rightarrow> JUndefined | Some x \<Rightarrow> data x)"

subsection \<open>Connection check\<close>

definition connection_failure_message :: "exn \<Rightarrow> string" where
  "connection_failure_message e =
     (case e of
        AxiosError m r \<Rightarrow>
          (if response_status r = Some 401
             then ''Authentication failed: Invalid API token or email''
           else if response_status r = Some 403
             then ''Authorization failed: Insufficient permissions''
           else if response_status r = Some 404
             then ''API endpoint not found: Check Confluence domain''
           else if (case response_status r of None \<Rightarrow> False | Some st \<Rightarrow> st \<ge> 500)
             then ''Confluence server error: API may be temporarily unavailable''
           else ''Failed to connect to Confluence API'')
      | ConfluenceError m c \<Rightarrow> ''Failed to connect to Confluence API''
      | Error m \<Rightarrow> ''Failed to connect to Confluence API''
      | TypeError \<Rightarrow> ''Failed to connect to Confluence API'')"

definition verifyApiConnection :: "client \<Rightarrow> unit io" where
  "verifyApiConnection c w =
     (case axios_get (client_baseURL c) ''/space'' [(''limit'', JNum 1)] w of
        (Inr d, w1) \<Rightarrow> (Inr (), w1)
      | (Inl e, w1) \<Rightarrow> (Inl (Error (connection_failure_message e)), w1))"

subsection \<open>Spaces\<close>

definition getConfluenceSpaces :: "client \<Rightarrow> int option \<Rightarrow> int option \<Rightarrow> json io" where
  "getConfluenceSpaces c limit start w =
     (case axios_get (client_baseURL c) ''/space''
             [(''limit'', JNum (or_default limit 25)), (''start'', JNum (or_default start 0))] w of
        (Inl e, w1) \<Rightarrow> (Inl e, w1)
      | (Inr d, w1) \<Rightarrow>
          (if nullish d then (Inl TypeError, w1)
           else (Inr (JObj [(''results'', field d ''results''), (''_links'', field d ''_links''),
                            (''size'', field d ''size'')]), w1)))"

definition getConfluenceSpace :: "client \<Rightarrow> string \<Rightarrow> json io" where
  "getConfluenceSpace c spaceKey w =
     (case axios_get (client_baseURL c) (''/space/'' @ spaceKey) [] w of
        (Inl e, w1) \<Rightarrow> (Inl e, w1)
      | (Inr d, w1) \<Rightarrow>
          (if nullish d then (Inl TypeError, w1)
           else (Inr (JObj [(''id'', field d ''id''), (''key'', field d ''key''),
                            (''name'', field d ''name''), (''type'', field d ''type''),
                            (''status'', field d ''status''), (''_links'', field d ''_links'')]),
                 w1)))"

subsection \<open>Pages\<close>

text \<open>
  Every page-returning method builds the same object literal from the upstream page,
  with or without the \<open>body\<close> property. \<open>page.history?.createdBy?.accountId\<close> and
  \<open>page.history?.createdDate\<close> are the two optional chains; the clock is read only
  when the creation date is missing or falsy.
\<close>

definition creator_accountId :: "json \<Rightarrow> json" where
  "creator_accountId page = opt_prop (opt_prop (field page ''history'') ''createdBy'') ''accountId''"

definition history_createdDate :: "json \<Rightarrow> json" where
  "history_createdDate page = opt_prop (field page ''history'') ''createdDate''"

definition createdDate_or_now :: "json \<Rightarrow> world \<Rightarrow> json \<times> world" where
  "createdDate_or_now page w =
     (if truthy (history_createdDate page) then (history_createdDate page, w)
      else (case now_iso w of (t, w1) \<Rightarrow> (JStr t, w1)))"

definition toPage :: "bool \<Rightarrow> json \<Rightarrow> json io" where
  "toPage with_body page w =
     (if nullish page then (Inl TypeError, w)
      else (case createdDate_or_now page w of
              (created, w1) \<Rightarrow>
                (Inr (JObj ([(''id'', field page ''id''),
                             (''title'', field page ''title''),
                             (''status'', field page ''status''),
                             (''spaceId'', opt_prop (field page ''space'') ''id''),
                             (''_links'', field page ''_links''),
                             (''version'', field page ''version'')]
                            @ (if with_body then [(''body'', field page ''body'')] else [])
                            @ [(''authorId'', js_or (creator_accountId page) (JStr ''unknown'')),
                               (''createdAt'', created)])),
                 w1)))"

definition pages_cql :: "string \<Rightarrow> string option \<Rightarrow> string" where
  "pages_cql spaceKey title =
     join '' AND ''
       ([''space = '' @ quoted spaceKey, ''type = '' @ quoted ''page'']
        @ when_given title (\<lambda>t. ''title ~ '' @ quoted t))"

definition getConfluencePages ::
  "client \<Rightarrow> string \<Rightarrow> int option \<Rightarrow> int option \<Rightarrow> string option \<Rightarrow> json io" where
  "getConfluencePages c spaceKey limit start title w =
     (case axios_get (client_baseURL c) ''/content/search''
             [(''cql'', JStr (pages_cql spaceKey title)),
              (''limit'', JNum (or_default limit 25)),
              (''start'', JNum (or_default start 0)),
              (''expand'', JStr ''space,version,body.storage'')] w of
        (Inl e, w1) \<Rightarrow> (Inl e, w1)
      | (Inr d, w1) \<Rightarrow>
          (if nullish d then (Inl TypeError, w1)
           else (case field d ''results'' of
                   JArr rows \<Rightarrow>
                     (case map_io (toPage True) rows w1 of
                        (Inl e, w2) \<Rightarrow> (Inl e, w2)
                      | (Inr pages, w2) \<Rightarrow>
                          (Inr (JObj [(''results'', JArr pages),
                                      (''_links'', field d ''_links''),
                                      (''size'', field d ''size'')]), w2))
                 | _ \<Rightarrow> (Inl TypeError, w1))))"




definition storage_value :: "json \<Rightarrow> json" where
  "storage_value d = opt_prop (opt_prop (field d ''body'') ''storage'') ''value''"

definition getPageContent_catch :: "exn \<Rightarrow> exn" where
  "getPageContent_catch e =
     (case e of
        AxiosError m r \<Rightarrow>
          (if response_status r = Some 404
             then ConfluenceError ''Page content not found'' PAGE_NOT_FOUND
           else if response_status r = Some 403
             then ConfluenceError ''Insufficient permissions to access page content''
                    INSUFFICIENT_PERMISSIONS
           else ConfluenceError (''Failed to get page content: '' @ m) UNKNOWN)
      | ConfluenceError m c \<Rightarrow> e
      | Error m \<Rightarrow> e
      | TypeError \<Rightarrow> e)"

definition getPageContent :: "client \<Rightarrow> string \<Rightarrow> json io" where
  "getPageContent c pageId w =
     (case axios_get (client_baseURL c) (''/content/'' @ pageId)
             [(''expand'', JStr ''body.storage'')] w of
        (Inl e, w1) \<Rightarrow> (Inl (getPageContent_catch e), w1)
      | (Inr d, w1) \<Rightarrow>
          (if nullish d then (Inl (getPageContent_catch TypeError), w1)
           else if \<not> truthy (storage_value d)
             then (Inl (getPageContent_catch
                          (ConfluenceError ''Page content is empty or not accessible''
                             EMPTY_CONTENT)), w1)
           else (Inr (storage_value d), w1)))"





definition update_body :: "string \<Rightarrow> string \<Rightarrow> int \<Rightarrow> string \<Rightarrow> json" where
  "update_body title content version stamp =
     JObj [(''type'', JStr ''page''),
           (''title'', JStr title),
           (''body'', JObj [(''storage'', JObj [(''value'', JStr content),
                                                 (''representation'', JStr ''storage'')])]),
           (''version'', JObj [(''number'', JNum (version + 1)),
                               (''message'', JStr (''Updated via MCP at '' @ stamp))])]"

definition updateConfluencePage ::
  "client \<Rightarrow> string \<Rightarrow> string \<Rightarrow> string \<Rightarrow> int \<Rightarrow> json io" where
  "updateConfluencePage c pageId title content version w =
     (case axios_get (client_baseURL c) (''/content/'' @ pageId) [] w of
        (Inl e, w1) \<Rightarrow> (Inl e, w1)
      | (Inr currentPage, w1) \<Rightarrow>
          (case now_iso w1 of
             (stamp, w2) \<Rightarrow>
               (case axios_put (client_baseURL c) (''/content/'' @ pageId)
                       (update_body title content version stamp) w2 of
                  (Inl e, w3) \<Rightarrow> (Inl e, w3)
                | (Inr d, w3) \<Rightarrow> toPage False d w3)))"


subsection \<open>Search\<close>

definition search_cql :: "string \<Rightarrow> string" where
  "search_cql query = (if str_includes query ''type ='' then query else ''text ~ '' @ quoted query)"

definition search_row :: "client \<Rightarrow> json \<Rightarrow> exn + json" where
  "search_row c result =
     (if nullish result then Inl TypeError
      else Inr (JObj [(''content'',
                        JObj [(''id'', field result ''id''),
                              (''type'', field result ''type''),
                              (''status'', field result ''status''),
                              (''title'', field result ''title''),
                              (''spaceId'', opt_prop (field result ''space'') ''id''),
                              (''_links'', field result ''_links'')]),
                      (''url'',
                        JStr (''https://'' @ domain c @ ''/wiki''
                              @ js_to_string
                                  (js_or (opt_prop (field result ''_links'') ''webui'') (JStr [])))),
                      (''lastModified'', opt_prop (field result ''version'') ''when''),
                      (''excerpt'', js_or (field result ''excerpt'') (JStr []))]))"

definition searchConfluenceContent_catch :: "exn \<Rightarrow> exn" where
  "searchConfluenceContent_catch e =
     (case e of
        AxiosError m r \<Rightarrow> ConfluenceError (''Failed to search content: '' @ m) SEARCH_FAILED
      | ConfluenceError m c \<Rightarrow> e
      | Error m \<Rightarrow> e
      | TypeError \<Rightarrow> e)"

definition searchConfluenceContent ::
  "client \<Rightarrow> string \<Rightarrow> int option \<Rightarrow> int option \<Rightarrow> json io" where
  "searchConfluenceContent c query limit start w =
     (case axios_get (client_baseURL c) ''/content/search''
             [(''cql'', JStr (search_cql query)),
              (''limit'', JNum (or_default limit 25)),
              (''start'', JNum (or_default start 0)),
              (''expand'', JStr ''space,version,body.view'')] w of
        (Inl e, w1) \<Rightarrow> (Inl (searchConfluenceContent_catch e), w1)
      | (Inr d, w1) \<Rightarrow>
          (if nullish d then (Inl (searchConfluenceContent_catch TypeError), w1)
           else (case js_or (field d ''results'') (JArr []) of
                   JArr rows \<Rightarrow>
                     (case map_io (\<lambda>r v. (search_row c r, v)) rows w1 of
                        (Inl e, w2) \<Rightarrow> (Inl (searchConfluenceContent_catch e), w2)
                      | (Inr entries, w2) \<Rightarrow>
                          (Inr (JObj [(''results'', JArr entries),
                                      (''_links'',
                                        JObj [(''next'', opt_prop (field d ''_links'') ''next''),
                                              (''base'', JStr (baseURL c @ apiPath c))])]),
                           w2))
                 | _ \<Rightarrow> (Inl (searchConfluenceContent_catch TypeError), w1))))"

subsection \<open>Labels\<close>

definition getConfluenceLabels :: "client \<Rightarrow> string \<Rightarrow> json io" where
  "getConfluenceLabels c pageId w =
     (case axios_get (client_baseURL c) (''/content/'' @ pageId @ ''/label'') [] w of
        (Inl e, w1) \<Rightarrow> (Inl e, w1)
      | (Inr d, w1) \<Rightarrow>
          (if nullish d then (Inl TypeError, w1)
           else (Inr (JObj [(''results'', field d ''results''), (''_links'', field d ''_links''),
                            (''size'', field d ''size'')]), w1)))"

text \<open>
  The handler of \<open>addConfluenceLabel\<close>: the 404 test comes first, then the test of
  \<open>error.response?.data?.message?.includes('already has the label')\<close>, which itself
  throws when the message is neither text nor a list.
\<close>

definition addConfluenceLabel_catch :: "string \<Rightarrow> exn \<Rightarrow> exn" where
  "addConfluenceLabel_catch label e =
     (case e of
        AxiosError m r \<Rightarrow>
          (if response_status r = Some 404 then ConfluenceError ''Page not found'' PAGE_NOT_FOUND
           else (case opt_includes (opt_prop (response_data r) ''message'')
                        ''already has the label'' of
                   Inl t \<Rightarrow> t
                 | Inr found \<Rightarrow>
                     (if truthy found
                        then ConfluenceError
                               (''Label '' @ quoted label @ '' already exists on this page'')
                               LABEL_EXISTS
                      else ConfluenceError (''Failed to add label: '' @ m) UNKNOWN)))
      | ConfluenceError m c \<Rightarrow> e
      | Error m \<Rightarrow> e
      | TypeError \<Rightarrow> e)"

definition addConfluenceLabel :: "client \<Rightarrow> string \<Rightarrow> string \<Rightarrow> json io" where
  "addConfluenceLabel c pageId label w =
     (case axios_post (client_baseURL c) (''/content/'' @ pageId @ ''/label'')
             (JArr [JObj [(''prefix'', JStr ''global''), (''name'', JStr label)]]) w of
        (Inl e, w1) \<Rightarrow> (Inl (addConfluenceLabel_catch label e), w1)
      | (Inr d, w1) \<Rightarrow>
          (if nullish d \<or> nullish (field d ''results'')
             then (Inl (addConfluenceLabel_catch label TypeError), w1)
           else (Inr (index0 (field d ''results'')), w1)))"

definition removeConfluenceLabel_catch :: "string \<Rightarrow> exn \<Rightarrow> exn" where
  "removeConfluenceLabel_catch label e =
     (case e of
        AxiosError m r \<Rightarrow>
          (if response_status r = Some 404
             then (case opt_includes (opt_prop (response_data r) ''message'') ''label'' of
                     Inl t \<Rightarrow> t
                   | Inr found \<Rightarrow>
                       (if truthy found
                          then ConfluenceError (''Label '' @ quoted label @ '' not found on page'')
                                 LABEL_NOT_FOUND
                        else ConfluenceError ''Page not found'' PAGE_NOT_FOUND))
           else ConfluenceError (''Failed to remove label: '' @ m) UNKNOWN)
      | ConfluenceError m c \<Rightarrow> e
      | Error m \<Rightarrow> e
      | TypeError \<Rightarrow> e)"

definition removeConfluenceLabel :: "client \<Rightarrow> string \<Rightarrow> string \<Rightarrow> unit io" where
  "removeConfluenceLabel c pageId label w =
     (case axios_delete (client_baseURL c) (''/content/'' @ pageId @ ''/label'')
             [(''name'', JStr label)] w of
        (Inl e, w1) \<Rightarrow> (Inl (removeConfluenceLabel_catch label e), w1)
      | (Inr d, w1) \<Rightarrow> (Inr (), w1))"

section \<open>The typed client\<close>

text \<open>
  The class \<open>ConfluenceClient\<close> of \<open>src/confluence-client.ts\<close>: every method is one
  request on the axios instance and returns \<open>response.data\<close>; nothing is caught.
  \<open>getPageContent\<close> of this class is \<open>getPageContent_typed\<close> here, the name being
  taken by the legacy method.
\<close>

record ConfluenceAuth =
  auth_domain :: string
  auth_email :: string
  auth_apiToken :: string

record typed_client =
  typed_domain :: string
  typed_baseURL :: string

definition TypedConfluenceClient :: "ConfluenceAuth \<Rightarrow> typed_client" where
  "TypedConfluenceClient auth =
     \<lparr>typed_domain = auth_domain auth,
      typed_baseURL = ''https://'' @ auth_domain auth @ ''/rest/api''\<rparr>"

definition getSpaces :: "typed_client \<Rightarrow> int option \<Rightarrow> int option \<Rightarrow> json io" where
  "getSpaces c limit start =
     axios_get (typed_baseURL c) ''/spaces''
       [(''limit'', JNum (or_default limit 25)), (''start'', JNum (or_default start 0))]"

definition getSpace :: "typed_client \<Rightarrow> string \<Rightarrow> json io" where
  "getSpace c spaceId = axios_get (typed_baseURL c) (''/spaces/'' @ spaceId) []"

definition getPages :: "typed_client \<Rightarrow> string \<Rightarrow> int option \<Rightarrow> int option \<Rightarrow> json io" where
  "getPages c spaceId limit start =
     axios_get (typed_baseURL c) ''/pages''
       [(''spaceId'', JStr spaceId),
        (''limit'', JNum (or_default limit 25)),
        (''start'', JNum (or_default start 0)),
        (''status'', JStr ''current'')]"

definition getPage :: "typed_client \<Rightarrow> string \<Rightarrow> json io" where
  "getPage c pageId = axios_get (typed_baseURL c) (''/pages/'' @ pageId) []"

definition getPageContent_typed :: "typed_client \<Rightarrow> string \<Rightarrow> json io" where
  "getPageContent_typed c pageId =
     axios_get (typed_baseURL c) (''/pages/'' @ pageId @ ''/body'')
       [(''body_format'', JStr ''storage'')]"

definition createPage ::
  "typed_client \<Rightarrow> string \<Rightarrow> string \<Rightarrow> string \<Rightarrow> string option \<Rightarrow> json io" where
  "createPage c spaceId title content parentId =
     axios_post (typed_baseURL c) ''/pages''
       (JObj ([(''spaceId'', JStr spaceId),
               (''status'', JStr ''current''),
               (''title'', JStr title),
               (''body'', JObj [(''representation'', JStr ''storage''),
                                (''value'', JStr content)])]
              @ when_given parentId (\<lambda>p. (''parentId'', JStr p))))"

definition updatePage :: "typed_client \<Rightarrow> string \<Rightarrow> string \<Rightarrow> string \<Rightarrow> int \<Rightarrow> json io" where
  "updatePage c pageId title content version w =
     (case now_iso w of
        (stamp, w1) \<Rightarrow>
          axios_put (typed_baseURL c) (''/pages/'' @ pageId)
            (JObj [(''id'', JStr pageId),
                   (''status'', JStr ''current''),
                   (''title'', JStr title),
                   (''body'', JObj [(''representation'', JStr ''storage''),
                                    (''value'', JStr content)]),
                   (''version'', JObj [(''number'', JNum (version + 1)),
                                       (''message'', JStr (''Updated via MCP at '' @ stamp))])])
            w1)"

definition searchContent :: "typed_client \<Rightarrow> string \<Rightarrow> int option \<Rightarrow> int option \<Rightarrow> json io" where
  "searchContent c query limit start =
     axios_get (typed_baseURL c) ''/search''
       [(''cql'', JStr query),
        (''limit'', JNum (or_default limit 25)),
        (''start'', JNum (or_default start 0))]"

definition getLabels :: "typed_client \<Rightarrow> string \<Rightarrow> json io" where
  "getLabels c pageId = axios_get (typed_baseURL c) (''/pages/'' @ pageId @ ''/labels'') []"

definition addLabel :: "typed_client \<Rightarrow> string \<Rightarrow> string \<Rightarrow> json io" where
  "addLabel c pageId label =
     axios_post (typed_baseURL c) (''/pages/'' @ pageId @ ''/labels'')
       (JObj [(''name'', JStr label)])"

definition removeLabel :: "typed_client \<Rightarrow> string \<Rightarrow> string \<Rightarrow> unit io" where
  "removeLabel c pageId label w =
     (case axios_delete (typed_baseURL c) (''/pages/'' @ pageId @ ''/labels/'' @ label) [] w of
        (Inl e, w1) \<Rightarrow> (Inl e, w1)
      | (Inr d, w1) \<Rightarrow> (Inr (), w1))"

section \<open>Example inputs\<close>

text \<open>
  A configuration and a world to run the operations in: nothing sent yet, a clock that
  advances by a second per reading, and the given remote service.
\<close>

definition example_config :: ConfluenceConfig where
  "example_config =
     \<lparr>cfg_domain = ''wiki.example.com'', cfg_email = ''bot@example.com'',
      cfg_apiToken = ''token''\<rparr>"

definition example_auth :: ConfluenceAuth where
  "example_auth =
     \<lparr>auth_domain = ''wiki.example.com'', auth_email = ''bot@example.com'',
      auth_apiToken = ''token''\<rparr>"

definition example_clock :: "nat \<Rightarrow> string" where
  "example_clock n =
     (if n = 0 then ''2024-05-01T10:00:00.000Z''
      else if n = 1 then ''2024-05-01T10:00:01.000Z''
      else ''2024-05-01T10:00:02.000Z'')"

definition example_world :: "(request list \<Rightarrow> request \<Rightarrow> exn + json) \<Rightarrow> world" where
  "example_world srv = \<lparr>server = srv, clock = example_clock, sent = [], clock_reads = 0\<rparr>"

text \<open>A service that answers every request with the same payload, or the same failure.\<close>

definition answering :: "json \<Rightarrow> world" where
  "answering d = example_world (\<lambda>history r. Inr d)"

definition failing :: "exn \<Rightarrow> world" where
  "failing e = example_world (\<lambda>history r. Inl e)"

text \<open>
  Two upstream pages: one with its history expanded, one as the search endpoint
  returns it under \<open>expand=space,version,body.storage\<close>, without a history.
\<close>

definition page_with_history :: json where
  "page_with_history =
     JObj [(''id'', JStr ''101''), (''type'', JStr ''page''), (''status'', JStr ''current''),
           (''title'', JStr ''Release notes''),
           (''space'', JObj [(''id'', JNum 7), (''key'', JStr ''DEV'')]),
           (''version'', JObj [(''number'', JNum 3), (''when'', JStr ''2024-04-30T09:00:00.000Z'')]),
           (''history'', JObj [(''createdBy'', JObj [(''accountId'', JStr ''u-17'')]),
                               (''createdDate'', JStr ''2023-11-02T08:15:00.000Z'')]),
           (''_links'', JObj [(''webui'', JStr ''/display/DEV/Release+notes'')]),
           (''excerpt'', JStr ''What changed in 2.4'')]"

definition page_without_history :: json where
  "page_without_history =
     JObj [(''id'', JStr ''102''), (''type'', JStr ''page''), (''status'', JStr ''current''),
           (''title'', JStr ''Roadmap''),
           (''space'', JObj [(''id'', JNum 7), (''key'', JStr ''DEV'')]),
           (''version'', JObj [(''number'', JNum 4)]),
           (''body'', JObj [(''storage'', JObj [(''value'', JStr ''<p>Q3</p>''),
                                                 (''representation'', JStr ''storage'')])])]"

definition page_listing :: json where
  "page_listing =
     JObj [(''results'', JArr [page_with_history, page_without_history]),
           (''size'', JNum 2),
           (''_links'', JObj [(''next'', JStr ''/rest/api/content/search?start=2''),
                              (''prev'', JStr ''/rest/api/content/search?start=0'')])]"

text \<open>A service that answers a read with the roadmap page and a write with its next version.\<close>

definition updating_service :: "request list \<Rightarrow> request \<Rightarrow> exn + json" where
  "updating_service history r =
     (if req_method r = PUT
      then Inr (JObj [(''id'', JStr ''102''), (''status'', JStr ''current''),
                      (''title'', field (req_body r) ''title''),
                      (''version'', field (req_body r) ''version'')])
      else Inr page_without_history)"

section \<open>Properties of the two clients\<close>

subsection \<open>Unfolding a request; text search\<close>

lemmas transport_defs = axios_get_def axios_post_def axios_put_def axios_delete_def http_def

lemma str_includes_iff: "str_includes hay needle \<longleftrightarrow> (\<exists>p s. hay = p @ needle @ s)"
proof (induction hay)
  case Nil
  then show ?case by auto
next
  case (Cons c cs)
  show ?case
  proof
    assume "str_includes (c # cs) needle"
    then consider "prefix needle (c # cs)" | "str_includes cs needle" by auto
    then show "\<exists>p s. c # cs = p @ needle @ s"
    proof cases
      case 1
      then obtain s where "c # cs = needle @ s" by (auto simp: prefix_def)
      then have "c # cs = [] @ needle @ s" by simp
      then show ?thesis by blast
    next
      case 2
      with Cons.IH obtain p s where "cs = p @ needle @ s" by blast
      then have "c # cs = (c # p) @ needle @ s" by simp
      then show ?thesis by blast
    qed
  next
    assume "\<exists>p s. c # cs = p @ needle @ s"
    then obtain p s where ps: "c # cs = p @ needle @ s" by blast
    show "str_includes (c # cs) needle"
    proof (cases p)
      case Nil
      with ps have "prefix needle (c # cs)" by (simp add: prefix_def)
      then show ?thesis by simp
    next
      case (Cons a p')
      with ps have "cs = p' @ needle @ s" by simp
      with Cons.IH have "str_includes cs needle" by blast
      then show ?thesis by simp
    qed
  qed
qed

subsection \<open>Connection check\<close>

text \<open>
  Claim C6. \<open>verifyApiConnection\<close> issues exactly one request, the read of \<open>/space\<close>
  with \<open>limit = 1\<close>. When it is answered the call returns nothing; when it fails the
  call throws one plain \<open>Error\<close> whose message depends on the HTTP status only: 401
  invalid credentials, 403 insufficient authorization, 404 misconfigured address, 500
  and above remote unavailable, and the generic connection failure for every other
  status, for a failure without a response and for a failure that is no HTTP error.
\<close>

theorem verifyApiConnection_classifies:
  fixes config :: ConfluenceConfig and w :: world
  defines "c \<equiv> ConfluenceClient config"
  defines "probe \<equiv> \<lparr>req_base = ''https://'' @ cfg_domain config @ ''/rest/api'',
                      req_method = GET, req_path = ''/space'',
                      req_params = [(''limit'', JNum 1)], req_body = JUndefined\<rparr>"
  shows "sent (snd (verifyApiConnection c w)) = sent w @ [probe]
    \<and> (\<forall>d. server w (sent w) probe = Inr d \<longrightarrow> fst (verifyApiConnection c w) = Inr ())
    \<and> (\<forall>e. server w (sent w) probe = Inl e \<longrightarrow>
           (\<exists>msg. fst (verifyApiConnection c w) = Inl (Error msg)))
    \<and> (\<forall>m d. server w (sent w) probe = Inl (AxiosError m (Some (Response 401 d))) \<longrightarrow>
           fst (verifyApiConnection c w) =
             Inl (Error ''Authentication failed: Invalid API token or email''))
    \<and> (\<forall>m d. server w (sent w) probe = Inl (AxiosError m (Some (Response 403 d))) \<longrightarrow>
           fst (verifyApiConnection c w) =
             Inl (Error ''Authorization failed: Insufficient permissions''))
    \<and> (\<forall>m d. server w (sent w) probe = Inl (AxiosError m (Some (Response 404 d))) \<longrightarrow>
           fst (verifyApiConnection c w) =
             Inl (Error ''API endpoint not found: Check Confluence domain''))
    \<and> (\<forall>m st d. server w (sent w) probe = Inl (AxiosError m (Some (Response st d))) \<and> 500 \<le> st \<longrightarrow>
           fst (verifyApiConnection c w) =
             Inl (Error ''Confluence server error: API may be temporarily unavailable''))
    \<and> (\<forall>m st d. server w (sent w) probe = Inl (AxiosError m (Some (Response st d)))
           \<and> st < 500 \<and> st \<noteq> 401 \<and> st \<noteq> 403 \<and> st \<noteq> 404 \<longrightarrow>
           fst (verifyApiConnection c w) = Inl (Error ''Failed to connect to Confluence API''))
    \<and> (\<forall>m. server w (sent w) probe = Inl (AxiosError m None) \<longrightarrow>
           fst (verifyApiConnection c w) = Inl (Error ''Failed to connect to Confluence API''))
    \<and> (\<forall>e. server w (sent w) probe = Inl e \<and> (\<forall>m r. e \<noteq> AxiosError m r) \<longrightarrow>
           fst (verifyApiConnection c w) = Inl (Error ''Failed to connect to Confluence API''))"
proof -
  have run: "verifyApiConnection c w =
      (case server w (sent w) probe of
         Inr d \<Rightarrow> Inr () | Inl e \<Rightarrow> Inl (Error (connection_failure_message e)),
       w\<lparr>sent := sent w @ [probe]\<rparr>)"
    by (simp add: verifyApiConnection_def transport_defs c_def probe_def ConfluenceClient_def
        split: sum.splits)
  have other: "connection_failure_message e = ''Failed to connect to Confluence API''"
    if "\<forall>m r. e \<noteq> AxiosError m r" for e
    using that by (cases e) (simp_all add: connection_failure_message_def)
  have by_status: "connection_failure_message (AxiosError m (Some (Response st d))) =
      (if st = 401 then ''Authentication failed: Invalid API token or email''
       else if st = 403 then ''Authorization failed: Insufficient permissions''
       else if st = 404 then ''API endpoint not found: Check Confluence domain''
       else if 500 \<le> st then ''Confluence server error: API may be temporarily unavailable''
       else ''Failed to connect to Confluence API'')" for m st d
    by (simp add: connection_failure_message_def response_status_def)
  have no_response: "connection_failure_message (AxiosError m None) =
      ''Failed to connect to Confluence API''" for m
    by (simp add: connection_failure_message_def response_status_def)
  show ?thesis
    unfolding run
    by (auto simp: by_status no_response other)
qed


theorem verifyApiConnection_classifies_witness:
  "fst (verifyApiConnection (ConfluenceClient example_config) (answering (JObj [(''results'', JArr [])])))
     = Inr ()
   \<and> fst (verifyApiConnection (ConfluenceClient example_config)
             (failing (AxiosError ''Request failed with status code 401'' (Some (Response 401 JNull)))))
     = Inl (Error ''Authentication failed: Invalid API token or email'')
   \<and> fst (verifyApiConnection (ConfluenceClient example_config)
             (failing (AxiosError ''Request failed with status code 403'' (Some (Response 403 JNull)))))
     = Inl (Error ''Authorization failed: Insufficient permissions'')
   \<and> fst (verifyApiConnection (ConfluenceClient example_config)
             (failing (AxiosError ''Request failed with status code 404'' (Some (Response 404 JNull)))))
     = Inl (Error ''API endpoint not found: Check Confluence domain'')
   \<and> fst (verifyApiConnection (ConfluenceClient example_config)
             (failing (AxiosError ''Request failed with status code 503'' (Some (Response 503 JNull)))))
     = Inl (Error ''Confluence server error: API may be temporarily unavailable'')
   \<and> fst (verifyApiConnection (ConfluenceClient example_config)
             (failing (AxiosError ''Request failed with status code 418'' (Some (Response 418 JNull)))))
     = Inl (Error ''Failed to connect to Confluence API'')
   \<and> fst (verifyApiConnection (ConfluenceClient example_config)
             (failing (AxiosError ''Network Error'' None)))
     = Inl (Error ''Failed to connect to Confluence API'')
   \<and> fst (verifyApiConnection (ConfluenceClient example_config) (failing TypeError))
     = Inl (Error ''Failed to connect to Confluence API'')
   \<and> length (sent (snd (verifyApiConnection (ConfluenceClient example_config)
                            (answering (JObj [(''results'', JArr [])]))))) = 1"
  using
    verifyApiConnection_classifies [of example_config "answering (JObj [(''results'', JArr [])])"]
    verifyApiConnection_classifies [of example_config "failing (AxiosError ''Request failed with status code 401'' (Some (Response 401 JNull)))"]
    verifyApiConnection_classifies [of example_config "failing (AxiosError ''Request failed with status code 403'' (Some (Response 403 JNull)))"]
    verifyApiConnection_classifies [of example_config "failing (AxiosError ''Request failed with status code 404'' (Some (Response 404 JNull)))"]
    verifyApiConnection_classifies [of example_config "failing (AxiosError ''Request failed with status code 503'' (Some (Response 503 JNull)))"]
    verifyApiConnection_classifies [of example_config "failing (AxiosError ''Request failed with status code 418'' (Some (Response 418 JNull)))"]
    verifyApiConnection_classifies [of example_config "failing (AxiosError ''Network Error'' None)"]
    verifyApiConnection_classifies [of example_config "failing TypeError"]
  by (simp add: answering_def failing_def example_world_def)

subsection \<open>The query of a content search\<close>

lemma map_io_pure: "map_io (\<lambda>r v. (f r, v)) rows w = (res, w') \<Longrightarrow> w' = w"
proof (induction rows arbitrary: res w')
  case Nil
  then show ?case by simp
next
  case (Cons r rows)
  show ?case
  proof (cases "f r")
    case (Inl e)
    with Cons.prems show ?thesis by simp
  next
    case (Inr y)
    obtain rest v where rest: "map_io (\<lambda>r v. (f r, v)) rows w = (rest, v)"
      by (cases "map_io (\<lambda>r v. (f r, v)) rows w")
    from Cons.IH [OF rest] have "v = w" .
    with Cons.prems Inr rest show ?thesis by (auto split: sum.splits)
  qed
qed

lemma searchConfluenceContent_sent:
  "sent (snd (searchConfluenceContent c q limit start w)) =
     sent w @ [\<lparr>req_base = client_baseURL c, req_method = GET, req_path = ''/content/search'',
                req_params = [(''cql'', JStr (search_cql q)),
                              (''limit'', JNum (or_default limit 25)),
                              (''start'', JNum (or_default start 0)),
                              (''expand'', JStr ''space,version,body.view'')],
                req_body = JUndefined\<rparr>]"
proof -
  show ?thesis
    by (auto simp: searchConfluenceContent_def transport_defs
        split: sum.splits prod.splits json.splits dest: map_io_pure)
qed

text \<open>
  Claim C2, as the code has it. \<open>searchConfluenceContent\<close> sends one search request.
  Its \<open>cql\<close> parameter is the caller's query itself when the query contains the text
  \<open>type =\<close> (these six characters, wherever they stand), and otherwise the query
  between double quotes after \<open>text ~\<close>. So the query \<open>type = "page"\<close> goes out
  unmodified and \<open>budget report\<close> goes out as \<open>text ~ "budget report"\<close>. The double
  quote is written \<open>CHR 0x22\<close>.
\<close>

theorem searchConfluenceContent_query:
  fixes config :: ConfluenceConfig and q :: string and limit start :: "int option" and w :: world
  defines "c \<equiv> ConfluenceClient config"
  defines "search_for \<equiv> \<lambda>cql.
     \<lparr>req_base = ''https://'' @ cfg_domain config @ ''/rest/api'', req_method = GET,
      req_path = ''/content/search'',
      req_params = [(''cql'', JStr cql),
                    (''limit'', JNum (case limit of None \<Rightarrow> 25 | Some n \<Rightarrow> n)),
                    (''start'', JNum (case start of None \<Rightarrow> 0 | Some n \<Rightarrow> n)),
                    (''expand'', JStr ''space,version,body.view'')],
      req_body = JUndefined\<rparr>"
  shows "((\<exists>p s. q = p @ ''type ='' @ s) \<longrightarrow>
            sent (snd (searchConfluenceContent c q limit start w)) = sent w @ [search_for q])
       \<and> (\<not> (\<exists>p s. q = p @ ''type ='' @ s) \<longrightarrow>
            sent (snd (searchConfluenceContent c q limit start w)) =
              sent w @ [search_for (''text ~ '' @ [CHR 0x22] @ q @ [CHR 0x22])])
       \<and> sent (snd (searchConfluenceContent c (''type = '' @ [CHR 0x22] @ ''page'' @ [CHR 0x22])
                       limit start w)) =
            sent w @ [search_for (''type = '' @ [CHR 0x22] @ ''page'' @ [CHR 0x22])]
       \<and> sent (snd (searchConfluenceContent c ''budget report'' limit start w)) =
            sent w @ [search_for (''text ~ '' @ [CHR 0x22] @ ''budget report'' @ [CHR 0x22])]"
proof -
  have base: "client_baseURL c = ''https://'' @ cfg_domain config @ ''/rest/api''"
    by (simp add: c_def ConfluenceClient_def)
  have pass: "search_cql (''type = '' @ [CHR 0x22] @ ''page'' @ [CHR 0x22]) =
      ''type = '' @ [CHR 0x22] @ ''page'' @ [CHR 0x22]"
    by (simp add: search_cql_def)
  have wrap: "search_cql ''budget report'' =
      ''text ~ '' @ [CHR 0x22] @ ''budget report'' @ [CHR 0x22]"
    by (simp add: search_cql_def quoted_def)
  have verbatim: "search_cql q = q" if "\<exists>p s. q = p @ ''type ='' @ s"
    using that by (simp add: search_cql_def str_includes_iff)
  have wrapped: "search_cql q = ''text ~ '' @ [CHR 0x22] @ q @ [CHR 0x22]"
    if "\<not> (\<exists>p s. q = p @ ''type ='' @ s)"
    using that by (simp add: search_cql_def str_includes_iff quoted_def)
  show ?thesis
    unfolding searchConfluenceContent_sent base search_for_def
    using pass wrap verbatim wrapped by (simp add: or_default_def)
qed

theorem searchConfluenceContent_query_witness:
  "(\<exists>p s. ''space = DEV AND type = page'' = p @ ''type ='' @ s)
   \<and> map req_params (sent (snd (searchConfluenceContent (ConfluenceClient example_config)
          ''space = DEV AND type = page'' None None (answering (JObj [])))))
      = [[(''cql'', JStr ''space = DEV AND type = page''), (''limit'', JNum 25),
          (''start'', JNum 0), (''expand'', JStr ''space,version,body.view'')]]
   \<and> (\<exists>p s. ''what does prototype = mean'' = p @ ''type ='' @ s)
   \<and> map req_params (sent (snd (searchConfluenceContent (ConfluenceClient example_config)
          ''what does prototype = mean'' None None (answering (JObj [])))))
      = [[(''cql'', JStr ''what does prototype = mean''), (''limit'', JNum 25),
          (''start'', JNum 0), (''expand'', JStr ''space,version,body.view'')]]
   \<and> \<not> (\<exists>p s. ''release notes'' = p @ ''type ='' @ s)
   \<and> map req_params (sent (snd (searchConfluenceContent (ConfluenceClient example_config)
          ''release notes'' (Some 5) (Some 10) (answering (JObj [])))))
      = [[(''cql'', JStr (''text ~ '' @ [CHR 0x22] @ ''release notes'' @ [CHR 0x22])),
          (''limit'', JNum 5), (''start'', JNum 10),
          (''expand'', JStr ''space,version,body.view'')]]"
proof -
  have yes: "\<exists>p s. ''space = DEV AND type = page'' = p @ ''type ='' @ s"
    unfolding str_includes_iff [symmetric] by simp
  have also_yes: "\<exists>p s. ''what does prototype = mean'' = p @ ''type ='' @ s"
    unfolding str_includes_iff [symmetric] by simp
  have no: "\<not> (\<exists>p s. ''release notes'' = p @ ''type ='' @ s)"
    unfolding str_includes_iff [symmetric] by simp
  show ?thesis
    using yes also_yes no
      searchConfluenceContent_query [where q = "''space = DEV AND type = page''"
        and config = example_config and limit = None and start = None
        and w = "answering (JObj [])"]
      searchConfluenceContent_query [where q = "''what does prototype = mean''"
        and config = example_config and limit = None and start = None
        and w = "answering (JObj [])"]
      searchConfluenceContent_query [where q = "''release notes''"
        and config = example_config and limit = "Some 5" and start = "Some 10"
        and w = "answering (JObj [])"]
    by (simp add: answering_def example_world_def)
qed

text \<open>
  Claim C2, as the specification has it, sends every query that holds a type filter
  clause verbatim. The queries \<open>type=page\<close> and \<open>type in (page, blogpost)\<close> filter by
  type, yet neither holds the text \<open>type =\<close>, and each goes out wrapped as a free-text
  match instead of as it was given.
\<close>

theorem searchConfluenceContent_type_filter_counterexample:
  "map req_params (sent (snd (searchConfluenceContent (ConfluenceClient example_config)
          ''type=page'' None None (answering (JObj [])))))
      = [[(''cql'', JStr (''text ~ '' @ [CHR 0x22] @ ''type=page'' @ [CHR 0x22])),
          (''limit'', JNum 25), (''start'', JNum 0),
          (''expand'', JStr ''space,version,body.view'')]]
   \<and> ''text ~ '' @ [CHR 0x22] @ ''type=page'' @ [CHR 0x22] \<noteq> ''type=page''
   \<and> map req_params (sent (snd (searchConfluenceContent (ConfluenceClient example_config)
          ''type in (page, blogpost)'' None None (answering (JObj [])))))
      = [[(''cql'', JStr (''text ~ '' @ [CHR 0x22] @ ''type in (page, blogpost)'' @ [CHR 0x22])),
          (''limit'', JNum 25), (''start'', JNum 0),
          (''expand'', JStr ''space,version,body.view'')]]
   \<and> ''text ~ '' @ [CHR 0x22] @ ''type in (page, blogpost)'' @ [CHR 0x22]
        \<noteq> ''type in (page, blogpost)''"
  by (simp add: searchConfluenceContent_sent search_cql_def quoted_def or_default_def
      answering_def example_world_def)

subsection \<open>Errors of reading page content\<close>

lemma getPageContent_run:
  "getPageContent c pageId w =
     (case server w (sent w)
             \<lparr>req_base = client_baseURL c, req_method = GET, req_path = ''/content/'' @ pageId,
              req_params = [(''expand'', JStr ''body.storage'')], req_body = JUndefined\<rparr> of
        Inl e \<Rightarrow> Inl (getPageContent_catch e)
      | Inr d \<Rightarrow>
          if nullish d then Inl TypeError
          else if truthy (storage_value d) then Inr (storage_value d)
          else Inl (ConfluenceError ''Page content is empty or not accessible'' EMPTY_CONTENT),
      w\<lparr>sent := sent w @
          [\<lparr>req_base = client_baseURL c, req_method = GET, req_path = ''/content/'' @ pageId,
            req_params = [(''expand'', JStr ''body.storage'')], req_body = JUndefined\<rparr>]\<rparr>)"
  by (simp add: getPageContent_def transport_defs getPageContent_catch_def split: sum.splits)

text \<open>
  Claim C3. \<open>getPageContent\<close> throws \<open>EMPTY_CONTENT\<close> whenever the page it fetched has
  a storage body that is missing or empty, so a value it returns is never empty; it
  throws \<open>PAGE_NOT_FOUND\<close> on an HTTP 404 and \<open>INSUFFICIENT_PERMISSIONS\<close> on an HTTP 403.
  A fetched page is a response payload other than \<open>null\<close>.
\<close>

theorem getPageContent_errors:
  fixes config :: ConfluenceConfig and pageId :: string and w :: world
  defines "c \<equiv> ConfluenceClient config"
  defines "fetch \<equiv> \<lparr>req_base = ''https://'' @ cfg_domain config @ ''/rest/api'', req_method = GET,
                      req_path = ''/content/'' @ pageId,
                      req_params = [(''expand'', JStr ''body.storage'')], req_body = JUndefined\<rparr>"
  shows "(\<forall>d. server w (sent w) fetch = Inr d \<and> \<not> nullish d
              \<and> (nullish (field d ''body'') \<or> nullish (field (field d ''body'') ''storage'')
                  \<or> nullish (field (field (field d ''body'') ''storage'') ''value'')
                  \<or> field (field (field d ''body'') ''storage'') ''value'' = JStr []) \<longrightarrow>
            fst (getPageContent c pageId w) =
              Inl (ConfluenceError ''Page content is empty or not accessible'' EMPTY_CONTENT))
       \<and> (\<forall>v. fst (getPageContent c pageId w) = Inr v \<longrightarrow> \<not> nullish v \<and> v \<noteq> JStr [])
       \<and> (\<forall>m d. server w (sent w) fetch = Inl (AxiosError m (Some (Response 404 d))) \<longrightarrow>
            fst (getPageContent c pageId w) =
              Inl (ConfluenceError ''Page content not found'' PAGE_NOT_FOUND))
       \<and> (\<forall>m d. server w (sent w) fetch = Inl (AxiosError m (Some (Response 403 d))) \<longrightarrow>
            fst (getPageContent c pageId w) =
              Inl (ConfluenceError ''Insufficient permissions to access page content''
                     INSUFFICIENT_PERMISSIONS))"
proof -
  have base: "client_baseURL c = ''https://'' @ cfg_domain config @ ''/rest/api''"
    by (simp add: c_def ConfluenceClient_def)
  have empty: "\<not> truthy (storage_value d)"
    if "nullish (field d ''body'') \<or> nullish (field (field d ''body'') ''storage'')
        \<or> nullish (field (field (field d ''body'') ''storage'') ''value'')
        \<or> field (field (field d ''body'') ''storage'') ''value'' = JStr []" for d
    using that by (auto simp: storage_value_def opt_prop_def nullish_def)
  have filled: "\<not> nullish v \<and> v \<noteq> JStr []" if "truthy v" for v
    using that by (cases v) (simp_all add: nullish_def)
  show ?thesis
    unfolding getPageContent_run base fetch_def [symmetric]
    by (auto simp: empty filled getPageContent_catch_def response_status_def
        split: sum.splits if_splits)
qed

theorem getPageContent_errors_witness:
  "fst (getPageContent (ConfluenceClient example_config) ''42''
         (answering (JObj [(''id'', JStr ''42''),
            (''body'', JObj [(''storage'', JObj [(''value'', JStr []),
                                                  (''representation'', JStr ''storage'')])])])))
     = Inl (ConfluenceError ''Page content is empty or not accessible'' EMPTY_CONTENT)
   \<and> fst (getPageContent (ConfluenceClient example_config) ''42''
         (answering (JObj [(''id'', JStr ''42''), (''title'', JStr ''Home'')])))
     = Inl (ConfluenceError ''Page content is empty or not accessible'' EMPTY_CONTENT)
   \<and> fst (getPageContent (ConfluenceClient example_config) ''42''
         (answering (JObj [(''id'', JStr ''42''),
            (''body'', JObj [(''storage'', JObj [(''value'', JStr ''<p>Hello</p>'')])])])))
     = Inr (JStr ''<p>Hello</p>'')
   \<and> JStr ''<p>Hello</p>'' \<noteq> JStr []
   \<and> fst (getPageContent (ConfluenceClient example_config) ''42''
         (failing (AxiosError ''Request failed with status code 404'' (Some (Response 404 JNull)))))
     = Inl (ConfluenceError ''Page content not found'' PAGE_NOT_FOUND)
   \<and> fst (getPageContent (ConfluenceClient example_config) ''42''
         (failing (AxiosError ''Request failed with status code 403'' (Some (Response 403 JNull)))))
     = Inl (ConfluenceError ''Insufficient permissions to access page content''
              INSUFFICIENT_PERMISSIONS)"
proof -
  have ok: "fst (getPageContent (ConfluenceClient example_config) ''42''
         (answering (JObj [(''id'', JStr ''42''),
            (''body'', JObj [(''storage'', JObj [(''value'', JStr ''<p>Hello</p>'')])])])))
     = Inr (JStr ''<p>Hello</p>'')"
    by (simp add: getPageContent_run answering_def example_world_def storage_value_def
        opt_prop_def nullish_def)
  show ?thesis
    using ok
      getPageContent_errors [where config = example_config and pageId = "''42''" and w = "answering (JObj [(''id'', JStr ''42''),
            (''body'', JObj [(''storage'', JObj [(''value'', JStr []),
                                                  (''representation'', JStr ''storage'')])])])"]
      getPageContent_errors [where config = example_config and pageId = "''42''" and w = "answering (JObj [(''id'', JStr ''42''), (''title'', JStr ''Home'')])"]
      getPageContent_errors [where config = example_config and pageId = "''42''" and w = "answering (JObj [(''id'', JStr ''42''),
            (''body'', JObj [(''storage'', JObj [(''value'', JStr ''<p>Hello</p>'')])])])"]
      getPageContent_errors [where config = example_config and pageId = "''42''" and w = "failing (AxiosError ''Request failed with status code 404'' (Some (Response 404 JNull)))"]
      getPageContent_errors [where config = example_config and pageId = "''42''" and w = "failing (AxiosError ''Request failed with status code 403'' (Some (Response 403 JNull)))"]
    by (simp add: answering_def failing_def example_world_def nullish_def)
qed

subsection \<open>Removing a label\<close>

lemma removeConfluenceLabel_run:
  "removeConfluenceLabel c pageId label w =
     (case server w (sent w)
             \<lparr>req_base = client_baseURL c, req_method = DELETE,
              req_path = ''/content/'' @ pageId @ ''/label'',
              req_params = [(''name'', JStr label)], req_body = JUndefined\<rparr> of
        Inl e \<Rightarrow> Inl (removeConfluenceLabel_catch label e)
      | Inr d \<Rightarrow> Inr (),
      w\<lparr>sent := sent w @
          [\<lparr>req_base = client_baseURL c, req_method = DELETE,
            req_path = ''/content/'' @ pageId @ ''/label'',
            req_params = [(''name'', JStr label)], req_body = JUndefined\<rparr>]\<rparr>)"
  by (simp add: removeConfluenceLabel_def transport_defs split: sum.splits)

lemma removeConfluenceLabel_catch_404:
  "removeConfluenceLabel_catch label (AxiosError m (Some (Response 404 d))) =
     (case opt_includes (opt_prop d ''message'') ''label'' of
        Inl t \<Rightarrow> t
      | Inr found \<Rightarrow>
          if truthy found
          then ConfluenceError (''Label '' @ quoted label @ '' not found on page'') LABEL_NOT_FOUND
          else ConfluenceError ''Page not found'' PAGE_NOT_FOUND)"
  by (simp add: removeConfluenceLabel_catch_def response_status_def response_data_def)

lemma opt_includes_never_unknown: "opt_includes v needle \<noteq> Inl (ConfluenceError msg code)"
  by (cases v) simp_all

text \<open>
  Claim C4. When \<open>removeConfluenceLabel\<close> gets an HTTP 404 it reads the message text of
  the error payload: a message that mentions \<open>label\<close> gives \<open>LABEL_NOT_FOUND\<close>, a
  message that does not, or a payload without a message, gives \<open>PAGE_NOT_FOUND\<close>; a 404
  is never reported with the generic code \<open>UNKNOWN\<close>.
\<close>

theorem removeConfluenceLabel_not_found:
  fixes config :: ConfluenceConfig and pageId label :: string and w :: world
  defines "c \<equiv> ConfluenceClient config"
  defines "removal \<equiv> \<lparr>req_base = ''https://'' @ cfg_domain config @ ''/rest/api'',
                        req_method = DELETE, req_path = ''/content/'' @ pageId @ ''/label'',
                        req_params = [(''name'', JStr label)], req_body = JUndefined\<rparr>"
  shows "(\<forall>m d t. server w (sent w) removal = Inl (AxiosError m (Some (Response 404 d)))
              \<and> field d ''message'' = JStr t \<and> (\<exists>p s. t = p @ ''label'' @ s) \<longrightarrow>
            fst (removeConfluenceLabel c pageId label w) =
              Inl (ConfluenceError (''Label '' @ quoted label @ '' not found on page'')
                     LABEL_NOT_FOUND))
       \<and> (\<forall>m d t. server w (sent w) removal = Inl (AxiosError m (Some (Response 404 d)))
              \<and> field d ''message'' = JStr t \<and> \<not> (\<exists>p s. t = p @ ''label'' @ s) \<longrightarrow>
            fst (removeConfluenceLabel c pageId label w) =
              Inl (ConfluenceError ''Page not found'' PAGE_NOT_FOUND))
       \<and> (\<forall>m d. server w (sent w) removal = Inl (AxiosError m (Some (Response 404 d)))
              \<and> (nullish d \<or> nullish (field d ''message'')) \<longrightarrow>
            fst (removeConfluenceLabel c pageId label w) =
              Inl (ConfluenceError ''Page not found'' PAGE_NOT_FOUND))
       \<and> (\<forall>m d msg. server w (sent w) removal = Inl (AxiosError m (Some (Response 404 d))) \<longrightarrow>
            fst (removeConfluenceLabel c pageId label w) \<noteq> Inl (ConfluenceError msg UNKNOWN))"
proof -
  have base: "client_baseURL c = ''https://'' @ cfg_domain config @ ''/rest/api''"
    by (simp add: c_def ConfluenceClient_def)
  have absent: "opt_includes (opt_prop d ''message'') ''label'' = Inr JUndefined"
    if "nullish d \<or> nullish (field d ''message'')" for d
    using that by (auto simp: opt_prop_def nullish_def)
  have text_message: "opt_includes (opt_prop d ''message'') ''label'' =
        Inr (JBool (\<exists>p s. t = p @ ''label'' @ s))"
    if "field d ''message'' = JStr t" for d t
  proof -
    from that have "\<not> nullish d" by (auto simp: nullish_def)
    with that show ?thesis by (simp add: opt_prop_def str_includes_iff)
  qed
  have never: "removeConfluenceLabel_catch label (AxiosError m (Some (Response 404 d)))
        \<noteq> ConfluenceError msg UNKNOWN" for m d msg
    unfolding removeConfluenceLabel_catch_404
    using opt_includes_never_unknown [of "opt_prop d ''message''" "''label''" msg UNKNOWN]
    by (auto split: sum.splits)
  have label_case: "removeConfluenceLabel_catch label (AxiosError m (Some (Response 404 d))) =
        ConfluenceError (''Label '' @ quoted label @ '' not found on page'') LABEL_NOT_FOUND"
    if "field d ''message'' = JStr t" and "\<exists>p s. t = p @ ''label'' @ s" for m d t
    using that by (simp add: removeConfluenceLabel_catch_404 text_message)
  have page_case: "removeConfluenceLabel_catch label (AxiosError m (Some (Response 404 d))) =
        ConfluenceError ''Page not found'' PAGE_NOT_FOUND"
    if "field d ''message'' = JStr t" and "\<not> (\<exists>p s. t = p @ ''label'' @ s)" for m d t
    using that by (simp add: removeConfluenceLabel_catch_404 text_message)
  have bare_case: "removeConfluenceLabel_catch label (AxiosError m (Some (Response 404 d))) =
        ConfluenceError ''Page not found'' PAGE_NOT_FOUND"
    if "nullish d \<or> nullish (field d ''message'')" for m d
    using that by (simp add: removeConfluenceLabel_catch_404 absent)
  show ?thesis
    unfolding removeConfluenceLabel_run base removal_def [symmetric]
    using label_case page_case bare_case never by auto
qed


theorem removeConfluenceLabel_not_found_witness:
  "(\<exists>p s. ''The label draft does not exist on this content'' = p @ ''label'' @ s)
   \<and> fst (removeConfluenceLabel (ConfluenceClient example_config) ''42'' ''draft''
         (failing (AxiosError ''Request failed with status code 404''
            (Some (Response 404 (JObj [(''statusCode'', JNum 404),
               (''message'', JStr ''The label draft does not exist on this content'')]))))))
     = Inl (ConfluenceError (''Label '' @ quoted ''draft'' @ '' not found on page'') LABEL_NOT_FOUND)
   \<and> \<not> (\<exists>p s. ''No content found with id: 42'' = p @ ''label'' @ s)
   \<and> fst (removeConfluenceLabel (ConfluenceClient example_config) ''42'' ''draft''
         (failing (AxiosError ''Request failed with status code 404''
            (Some (Response 404 (JObj [(''statusCode'', JNum 404),
               (''message'', JStr ''No content found with id: 42'')]))))))
     = Inl (ConfluenceError ''Page not found'' PAGE_NOT_FOUND)
   \<and> fst (removeConfluenceLabel (ConfluenceClient example_config) ''42'' ''draft''
         (failing (AxiosError ''Request failed with status code 404'' (Some (Response 404 JNull)))))
     = Inl (ConfluenceError ''Page not found'' PAGE_NOT_FOUND)"
proof -
  have yes: "\<exists>p s. ''The label draft does not exist on this content'' = p @ ''label'' @ s"
    unfolding str_includes_iff [symmetric] by simp
  have no: "\<not> (\<exists>p s. ''No content found with id: 42'' = p @ ''label'' @ s)"
    unfolding str_includes_iff [symmetric] by simp
  show ?thesis
    using yes no
      removeConfluenceLabel_not_found [where config = example_config and pageId = "''42''"
        and label = "''draft''"
        and w = "failing (AxiosError ''Request failed with status code 404''
            (Some (Response 404 (JObj [(''statusCode'', JNum 404),
               (''message'', JStr ''The label draft does not exist on this content'')]))))"]
      removeConfluenceLabel_not_found [where config = example_config and pageId = "''42''"
        and label = "''draft''"
        and w = "failing (AxiosError ''Request failed with status code 404''
            (Some (Response 404 (JObj [(''statusCode'', JNum 404),
               (''message'', JStr ''No content found with id: 42'')]))))"]
      removeConfluenceLabel_not_found [where config = example_config and pageId = "''42''"
        and label = "''draft''"
        and w = "failing (AxiosError ''Request failed with status code 404''
            (Some (Response 404 JNull)))"]
    by (simp add: failing_def example_world_def nullish_def)
qed

subsection \<open>Adding a label\<close>

lemma addConfluenceLabel_run:
  "addConfluenceLabel c pageId label w =
     (case server w (sent w)
             \<lparr>req_base = client_baseURL c, req_method = POST,
              req_path = ''/content/'' @ pageId @ ''/label'', req_params = [],
              req_body = JArr [JObj [(''prefix'', JStr ''global''), (''name'', JStr label)]]\<rparr> of
        Inl e \<Rightarrow> Inl (addConfluenceLabel_catch label e)
      | Inr d \<Rightarrow>
          if nullish d \<or> nullish (field d ''results'') then Inl TypeError
          else Inr (index0 (field d ''results'')),
      w\<lparr>sent := sent w @
          [\<lparr>req_base = client_baseURL c, req_method = POST,
            req_path = ''/content/'' @ pageId @ ''/label'', req_params = [],
            req_body = JArr [JObj [(''prefix'', JStr ''global''), (''name'', JStr label)]]\<rparr>]\<rparr>)"
  by (simp add: addConfluenceLabel_def transport_defs addConfluenceLabel_catch_def
      split: sum.splits)

text \<open>
  Claim C5. \<open>addConfluenceLabel\<close> posts the label as \<open>[{prefix: 'global', name}]\<close>.
  A rejection is recognised as a duplicate from the message text of the error payload,
  whatever its status apart from 404: a message containing \<open>already has the label\<close>
  gives \<open>LABEL_EXISTS\<close>, any other message, or none, the generic \<open>UNKNOWN\<close>, and the
  two codes differ. A 404 is \<open>PAGE_NOT_FOUND\<close> before the message is looked at.
\<close>

theorem addConfluenceLabel_duplicate:
  fixes config :: ConfluenceConfig and pageId label :: string and w :: world
  defines "c \<equiv> ConfluenceClient config"
  defines "addition \<equiv> \<lparr>req_base = ''https://'' @ cfg_domain config @ ''/rest/api'',
                         req_method = POST, req_path = ''/content/'' @ pageId @ ''/label'',
                         req_params = [],
                         req_body = JArr [JObj [(''prefix'', JStr ''global''),
                                                (''name'', JStr label)]]\<rparr>"
  shows "sent (snd (addConfluenceLabel c pageId label w)) = sent w @ [addition]
       \<and> (\<forall>m st d t. server w (sent w) addition = Inl (AxiosError m (Some (Response st d)))
              \<and> st \<noteq> 404 \<and> field d ''message'' = JStr t
              \<and> (\<exists>p s. t = p @ ''already has the label'' @ s) \<longrightarrow>
            fst (addConfluenceLabel c pageId label w) =
              Inl (ConfluenceError (''Label '' @ quoted label @ '' already exists on this page'')
                     LABEL_EXISTS))
       \<and> (\<forall>m st d t. server w (sent w) addition = Inl (AxiosError m (Some (Response st d)))
              \<and> st \<noteq> 404 \<and> field d ''message'' = JStr t
              \<and> \<not> (\<exists>p s. t = p @ ''already has the label'' @ s) \<longrightarrow>
            fst (addConfluenceLabel c pageId label w) =
              Inl (ConfluenceError (''Failed to add label: '' @ m) UNKNOWN))
       \<and> (\<forall>m st d. server w (sent w) addition = Inl (AxiosError m (Some (Response st d)))
              \<and> st \<noteq> 404 \<and> (nullish d \<or> nullish (field d ''message'')) \<longrightarrow>
            fst (addConfluenceLabel c pageId label w) =
              Inl (ConfluenceError (''Failed to add label: '' @ m) UNKNOWN))
       \<and> (\<forall>m d. server w (sent w) addition = Inl (AxiosError m (Some (Response 404 d))) \<longrightarrow>
            fst (addConfluenceLabel c pageId label w) =
              Inl (ConfluenceError ''Page not found'' PAGE_NOT_FOUND))
       \<and> LABEL_EXISTS \<noteq> UNKNOWN"
proof -
  have base: "client_baseURL c = ''https://'' @ cfg_domain config @ ''/rest/api''"
    by (simp add: c_def ConfluenceClient_def)
  have absent: "opt_includes (opt_prop d ''message'') ''already has the label'' = Inr JUndefined"
    if "nullish d \<or> nullish (field d ''message'')" for d
    using that by (auto simp: opt_prop_def nullish_def)
  have text_message: "opt_includes (opt_prop d ''message'') ''already has the label'' =
        Inr (JBool (\<exists>p s. t = p @ ''already has the label'' @ s))"
    if "field d ''message'' = JStr t" for d t
  proof -
    from that have "\<not> nullish d" by (auto simp: nullish_def)
    with that show ?thesis by (simp add: opt_prop_def str_includes_iff)
  qed
  have catch: "addConfluenceLabel_catch label (AxiosError m (Some (Response st d))) =
      (if st = 404 then ConfluenceError ''Page not found'' PAGE_NOT_FOUND
       else case opt_includes (opt_prop d ''message'') ''already has the label'' of
              Inl t \<Rightarrow> t
            | Inr found \<Rightarrow>
                if truthy found
                then ConfluenceError (''Label '' @ quoted label @ '' already exists on this page'')
                       LABEL_EXISTS
                else ConfluenceError (''Failed to add label: '' @ m) UNKNOWN)" for m st d
    by (simp add: addConfluenceLabel_catch_def response_status_def response_data_def)
  have duplicate: "addConfluenceLabel_catch label (AxiosError m (Some (Response st d))) =
        ConfluenceError (''Label '' @ quoted label @ '' already exists on this page'') LABEL_EXISTS"
    if "st \<noteq> 404" and "field d ''message'' = JStr t"
      and "\<exists>p s. t = p @ ''already has the label'' @ s" for m st d t
    using that by (simp add: catch text_message)
  have other: "addConfluenceLabel_catch label (AxiosError m (Some (Response st d))) =
        ConfluenceError (''Failed to add label: '' @ m) UNKNOWN"
    if "st \<noteq> 404" and "field d ''message'' = JStr t"
      and "\<not> (\<exists>p s. t = p @ ''already has the label'' @ s)" for m st d t
    using that by (simp add: catch text_message)
  have bare: "addConfluenceLabel_catch label (AxiosError m (Some (Response st d))) =
        ConfluenceError (''Failed to add label: '' @ m) UNKNOWN"
    if "st \<noteq> 404" and "nullish d \<or> nullish (field d ''message'')" for m st d
    using that by (simp add: catch absent)
  have missing: "addConfluenceLabel_catch label (AxiosError m (Some (Response 404 d))) =
        ConfluenceError ''Page not found'' PAGE_NOT_FOUND" for m d
    by (simp add: catch)
  show ?thesis
    unfolding addConfluenceLabel_run base addition_def [symmetric]
    using duplicate other bare missing by auto
qed

theorem addConfluenceLabel_duplicate_witness:
  "(\<exists>p s. ''Content 42 already has the label draft'' = p @ ''already has the label'' @ s)
   \<and> fst (addConfluenceLabel (ConfluenceClient example_config) ''42'' ''draft''
         (failing (AxiosError ''Request failed with status code 400''
            (Some (Response 400 (JObj [(''statusCode'', JNum 400),
               (''message'', JStr ''Content 42 already has the label draft'')]))))))
     = Inl (ConfluenceError (''Label '' @ quoted ''draft'' @ '' already exists on this page'')
              LABEL_EXISTS)
   \<and> \<not> (\<exists>p s. ''Label name is too long'' = p @ ''already has the label'' @ s)
   \<and> fst (addConfluenceLabel (ConfluenceClient example_config) ''42'' ''draft''
         (failing (AxiosError ''Request failed with status code 400''
            (Some (Response 400 (JObj [(''statusCode'', JNum 400),
               (''message'', JStr ''Label name is too long'')]))))))
     = Inl (ConfluenceError ''Failed to add label: Request failed with status code 400'' UNKNOWN)
   \<and> fst (addConfluenceLabel (ConfluenceClient example_config) ''42'' ''draft''
         (failing (AxiosError ''Request failed with status code 500'' (Some (Response 500 JNull)))))
     = Inl (ConfluenceError ''Failed to add label: Request failed with status code 500'' UNKNOWN)
   \<and> fst (addConfluenceLabel (ConfluenceClient example_config) ''42'' ''draft''
         (failing (AxiosError ''Request failed with status code 404'' (Some (Response 404 JNull)))))
     = Inl (ConfluenceError ''Page not found'' PAGE_NOT_FOUND)"
proof -
  have yes: "\<exists>p s. ''Content 42 already has the label draft'' = p @ ''already has the label'' @ s"
    unfolding str_includes_iff [symmetric] by simp
  have no: "\<not> (\<exists>p s. ''Label name is too long'' = p @ ''already has the label'' @ s)"
    unfolding str_includes_iff [symmetric] by simp
  show ?thesis
    using yes no
      addConfluenceLabel_duplicate [where config = example_config and pageId = "''42''"
        and label = "''draft''"
        and w = "failing (AxiosError ''Request failed with status code 400''
            (Some (Response 400 (JObj [(''statusCode'', JNum 400),
               (''message'', JStr ''Content 42 already has the label draft'')]))))"]
      addConfluenceLabel_duplicate [where config = example_config and pageId = "''42''"
        and label = "''draft''"
        and w = "failing (AxiosError ''Request failed with status code 400''
            (Some (Response 400 (JObj [(''statusCode'', JNum 400),
               (''message'', JStr ''Label name is too long'')]))))"]
      addConfluenceLabel_duplicate [where config = example_config and pageId = "''42''"
        and label = "''draft''"
        and w = "failing (AxiosError ''Request failed with status code 500''
            (Some (Response 500 JNull)))"]
      addConfluenceLabel_duplicate [where config = example_config and pageId = "''42''"
        and label = "''draft''"
        and w = "failing (AxiosError ''Request failed with status code 404''
            (Some (Response 404 JNull)))"]
    by (simp add: failing_def example_world_def nullish_def)
qed

subsection \<open>Pages as returned\<close>

lemma map_io_list_all2:
  assumes step: "\<And>x v y v'. f x v = (Inr y, v') \<Longrightarrow> R v x y \<and> I v v'"
    and later: "\<And>v v' x y. I v v' \<Longrightarrow> R v' x y \<Longrightarrow> R v x y"
    and refl: "\<And>v. I v v"
    and trans: "\<And>v1 v2 v3. I v1 v2 \<Longrightarrow> I v2 v3 \<Longrightarrow> I v1 v3"
  shows "map_io f xs w = (Inr ys, w') \<Longrightarrow> list_all2 (R w) xs ys \<and> I w w'"
proof (induction xs arbitrary: w ys w')
  case Nil
  then show ?case by (simp add: refl)
next
  case (Cons x xs)
  from Cons.prems obtain y w1 zs where
    head: "f x w = (Inr y, w1)" and tail: "map_io f xs w1 = (Inr zs, w')" and ys: "ys = y # zs"
    by (auto split: sum.splits prod.splits)
  from step [OF head] have Rx: "R w x y" and I1: "I w w1" by simp_all
  from Cons.IH [OF tail] have all: "list_all2 (R w1) xs zs" and I2: "I w1 w'" by simp_all
  from all have "list_all2 (R w) xs zs"
    by (rule list_all2_mono) (rule later [OF I1])
  with Rx ys trans [OF I1 I2] show ?case by simp
qed

lemma map_io_succeeds:
  assumes "\<And>x v. x \<in> set xs \<Longrightarrow> \<exists>y v'. f x v = (Inr y, v')"
  shows "\<exists>ys w'. map_io f xs w = (Inr ys, w')"
  using assms
proof (induction xs arbitrary: w)
  case Nil
  then show ?case by simp
next
  case (Cons x xs)
  from Cons.prems [of x w] obtain y w1 where head: "f x w = (Inr y, w1)" by auto
  from Cons.IH [of w1] Cons.prems obtain zs w2 where "map_io f xs w1 = (Inr zs, w2)"
    by (metis list.set_intros(2))
  with head show ?case by simp
qed

lemma createdDate_or_now_cases:
  "createdDate_or_now page w =
     (if truthy (history_createdDate page) then (history_createdDate page, w)
      else (JStr (clock w (clock_reads w)), w\<lparr>clock_reads := Suc (clock_reads w)\<rparr>))"
  by (simp add: createdDate_or_now_def now_iso_def)

lemma toPage_value:
  "toPage with_body page w =
     (if nullish page then (Inl TypeError, w)
      else (Inr (JObj ([(''id'', field page ''id''),
                        (''title'', field page ''title''),
                        (''status'', field page ''status''),
                        (''spaceId'', opt_prop (field page ''space'') ''id''),
                        (''_links'', field page ''_links''),
                        (''version'', field page ''version'')]
                       @ (if with_body then [(''body'', field page ''body'')] else [])
                       @ [(''authorId'', js_or (creator_accountId page) (JStr ''unknown'')),
                          (''createdAt'', fst (createdDate_or_now page w))])),
            snd (createdDate_or_now page w)))"
  by (simp add: toPage_def split: prod.splits)

lemma toPage_world:
  assumes "toPage with_body page w = (res, w')"
  shows "server w' = server w" and "clock w' = clock w" and "sent w' = sent w"
    and "clock_reads w \<le> clock_reads w'"
  using assms by (auto simp: toPage_value createdDate_or_now_cases split: if_splits)

lemma toPage_fields:
  assumes "toPage with_body page w = (Inr p, w')"
  shows "\<not> nullish page"
    and "field p ''id'' = field page ''id''"
    and "field p ''title'' = field page ''title''"
    and "field p ''status'' = field page ''status''"
    and "field p ''spaceId'' = opt_prop (field page ''space'') ''id''"
    and "field p ''_links'' = field page ''_links''"
    and "field p ''version'' = field page ''version''"
    and "field p ''body'' = (if with_body then field page ''body'' else JUndefined)"
    and "field p ''authorId'' = js_or (creator_accountId page) (JStr ''unknown'')"
    and "field p ''createdAt'' = fst (createdDate_or_now page w)"
  using assms by (cases with_body; auto simp: toPage_value split: if_splits)+

lemma toPage_keys:
  assumes "toPage with_body page w = (Inr p, w')"
  shows "\<exists>kvs. p = JObj kvs \<and> map fst kvs =
           [''id'', ''title'', ''status'', ''spaceId'', ''_links'', ''version'']
           @ (if with_body then [''body''] else []) @ [''authorId'', ''createdAt'']"
  using assms by (cases with_body; auto simp: toPage_value split: if_splits)

lemma toPage_succeeds: "\<not> nullish page \<Longrightarrow> \<exists>p w'. toPage with_body page w = (Inr p, w')"
  by (simp add: toPage_value)

lemma map_io_toPage:
  assumes "map_io (toPage with_body) rows w = (Inr pages, w')"
  shows "list_all2 (\<lambda>row p. \<exists>v v'. toPage with_body row v = (Inr p, v')
                        \<and> clock v = clock w \<and> clock_reads w \<le> clock_reads v) rows pages
       \<and> (server w' = server w \<and> clock w' = clock w \<and> sent w' = sent w
            \<and> clock_reads w \<le> clock_reads w')"
proof (rule map_io_list_all2 [where f = "toPage with_body", OF _ _ _ _ assms])
  fix x v y v'
  assume run: "toPage with_body x v = (Inr y, v')"
  then have "\<exists>u u'. toPage with_body x u = (Inr y, u') \<and> clock u = clock v
      \<and> clock_reads v \<le> clock_reads u"
    by (intro exI [of _ v] exI [of _ v']) simp
  with toPage_world [OF run]
  show "(\<exists>u u'. toPage with_body x u = (Inr y, u') \<and> clock u = clock v
           \<and> clock_reads v \<le> clock_reads u)
      \<and> (server v' = server v \<and> clock v' = clock v \<and> sent v' = sent v
           \<and> clock_reads v \<le> clock_reads v')"
    by simp
next
  fix v v' :: world and x y
  assume "server v' = server v \<and> clock v' = clock v \<and> sent v' = sent v
      \<and> clock_reads v \<le> clock_reads v'"
    and "\<exists>u u'. toPage with_body x u = (Inr y, u') \<and> clock u = clock v'
      \<and> clock_reads v' \<le> clock_reads u"
  then show "\<exists>u u'. toPage with_body x u = (Inr y, u') \<and> clock u = clock v
      \<and> clock_reads v \<le> clock_reads u"
    by (metis order_trans)
qed auto

lemma getConfluencePages_Inr:
  assumes "getConfluencePages c spaceKey limit start title w = (Inr res, w')"
  shows "\<exists>r d rows pages.
           r = \<lparr>req_base = client_baseURL c, req_method = GET, req_path = ''/content/search'',
                req_params = [(''cql'', JStr (pages_cql spaceKey title)),
                              (''limit'', JNum (or_default limit 25)),
                              (''start'', JNum (or_default start 0)),
                              (''expand'', JStr ''space,version,body.storage'')],
                req_body = JUndefined\<rparr>
         \<and> server w (sent w) r = Inr d \<and> field d ''results'' = JArr rows
         \<and> map_io (toPage True) rows (w\<lparr>sent := sent w @ [r]\<rparr>) = (Inr pages, w')
         \<and> res = JObj [(''results'', JArr pages), (''_links'', field d ''_links''),
                       (''size'', field d ''size'')]"
  using assms
  by (auto simp: getConfluencePages_def transport_defs
      split: sum.splits prod.splits json.splits if_splits)






lemmas example_defs = answering_def failing_def example_world_def example_clock_def
  example_config_def page_with_history_def page_without_history_def page_listing_def

lemmas page_defs = toPage_def createdDate_or_now_def now_iso_def history_createdDate_def
  creator_accountId_def opt_prop_def nullish_def js_or_def







subsection \<open>Listing the pages of a space\<close>

lemma map_io_invariant:
  assumes step: "\<And>x v r v'. f x v = (r, v') \<Longrightarrow> I v v'"
    and refl: "\<And>v. I v v"
    and trans: "\<And>v1 v2 v3. I v1 v2 \<Longrightarrow> I v2 v3 \<Longrightarrow> I v1 v3"
  shows "map_io f xs w = (res, w') \<Longrightarrow> I w w'"
proof (induction xs arbitrary: w res w')
  case Nil
  then show ?case by (simp add: refl)
next
  case (Cons x xs)
  obtain r w1 where head: "f x w = (r, w1)" by (cases "f x w")
  show ?case
  proof (cases r)
    case (Inl e)
    with Cons.prems head have "w' = w1" by simp
    with step [OF head] show ?thesis by simp
  next
    case (Inr y)
    obtain rest w2 where tail: "map_io f xs w1 = (rest, w2)" by (cases "map_io f xs w1")
    with Cons.prems head Inr have "w' = w2" by (auto split: sum.splits)
    with trans [OF step [OF head] Cons.IH [OF tail]] show ?thesis by simp
  qed
qed

lemma map_io_toPage_sent:
  assumes "map_io (toPage with_body) rows w = (res, w')"
  shows "sent w' = sent w"
  by (rule map_io_invariant [where f = "toPage with_body" and I = "\<lambda>v v'. sent v' = sent v",
        OF _ _ _ assms]) (auto dest: toPage_world(3))

lemma getConfluencePages_sent:
  "sent (snd (getConfluencePages c spaceKey limit start title w)) =
     sent w @ [\<lparr>req_base = client_baseURL c, req_method = GET, req_path = ''/content/search'',
                req_params = [(''cql'', JStr (pages_cql spaceKey title)),
                              (''limit'', JNum (or_default limit 25)),
                              (''start'', JNum (or_default start 0)),
                              (''expand'', JStr ''space,version,body.storage'')],
                req_body = JUndefined\<rparr>]"
  by (auto simp: getConfluencePages_def transport_defs
      split: sum.splits prod.splits json.splits dest: map_io_toPage_sent)

lemma pages_cql_cases:
  "pages_cql spaceKey title =
     ''space = '' @ quoted spaceKey @ '' AND type = '' @ quoted ''page''
     @ (case title of None \<Rightarrow> [] | Some t \<Rightarrow> if t = [] then [] else '' AND title ~ '' @ quoted t)"
  by (simp add: pages_cql_def when_given_def split: option.splits)

lemma getConfluencePages_succeeds:
  assumes "server w (sent w)
             \<lparr>req_base = client_baseURL c, req_method = GET, req_path = ''/content/search'',
              req_params = [(''cql'', JStr (pages_cql spaceKey title)),
                            (''limit'', JNum (or_default limit 25)),
                            (''start'', JNum (or_default start 0)),
                            (''expand'', JStr ''space,version,body.storage'')],
              req_body = JUndefined\<rparr> = Inr d"
    and "field d ''results'' = JArr rows" and "\<And>row. row \<in> set rows \<Longrightarrow> \<not> nullish row"
  shows "\<exists>res w'. getConfluencePages c spaceKey limit start title w = (Inr res, w')"
proof -
  from assms(2) have d: "\<not> nullish d" by (auto simp: nullish_def)
  have "\<exists>pages w'. map_io (toPage True) rows v = (Inr pages, w')" for v
    by (rule map_io_succeeds) (use assms(3) in \<open>auto intro: toPage_succeeds\<close>)
  then obtain pages w' where
    "map_io (toPage True) rows
       (w\<lparr>sent := sent w @
          [\<lparr>req_base = client_baseURL c, req_method = GET, req_path = ''/content/search'',
            req_params = [(''cql'', JStr (pages_cql spaceKey title)),
                          (''limit'', JNum (or_default limit 25)),
                          (''start'', JNum (or_default start 0)),
                          (''expand'', JStr ''space,version,body.storage'')],
            req_body = JUndefined\<rparr>]\<rparr>) = (Inr pages, w')"
    by blast
  with assms(1,2) d show ?thesis
    by (simp add: getConfluencePages_def transport_defs)
qed

text \<open>
  Claim C8. \<open>getConfluencePages\<close> sends one request to \<open>/content/search\<close> whose \<open>cql\<close>
  is \<open>space = "spaceKey" AND type = "page"\<close>, followed by \<open>AND title ~ "title"\<close> exactly
  when a non-empty title filter is given, with \<open>limit\<close> (default 25), \<open>start\<close>
  (default 0) and \<open>expand = space,version,body.storage\<close>. When the service answers
  with a list of pages, the call returns \<open>{results, _links, size}\<close> whose results are
  the upstream pages in order, each reshaped to the nine properties of a page. The
  double quote is written \<open>CHR 0x22\<close>.
\<close>

theorem getConfluencePages_query_and_result:
  fixes config :: ConfluenceConfig and spaceKey :: string and limit start :: "int option"
    and title :: "string option" and w :: world
  defines "c \<equiv> ConfluenceClient config"
  defines "listing \<equiv>
     \<lparr>req_base = ''https://'' @ cfg_domain config @ ''/rest/api'', req_method = GET,
      req_path = ''/content/search'',
      req_params =
        [(''cql'', JStr (''space = '' @ [CHR 0x22] @ spaceKey @ [CHR 0x22]
                         @ '' AND type = '' @ [CHR 0x22] @ ''page'' @ [CHR 0x22]
                         @ (case title of None \<Rightarrow> []
                            | Some t \<Rightarrow>
                                if t = [] then []
                                else '' AND title ~ '' @ [CHR 0x22] @ t @ [CHR 0x22]))),
         (''limit'', JNum (case limit of None \<Rightarrow> 25 | Some n \<Rightarrow> n)),
         (''start'', JNum (case start of None \<Rightarrow> 0 | Some n \<Rightarrow> n)),
         (''expand'', JStr ''space,version,body.storage'')],
      req_body = JUndefined\<rparr>"
  shows "sent (snd (getConfluencePages c spaceKey limit start title w)) = sent w @ [listing]
       \<and> (\<forall>d rows. server w (sent w) listing = Inr d \<and> field d ''results'' = JArr rows
              \<and> (\<forall>row\<in>set rows. \<not> nullish row) \<longrightarrow>
            (\<exists>res w'. getConfluencePages c spaceKey limit start title w = (Inr res, w')))
       \<and> (\<forall>res w'. getConfluencePages c spaceKey limit start title w = (Inr res, w') \<longrightarrow>
            (\<exists>d rows pages. server w (sent w) listing = Inr d
               \<and> field d ''results'' = JArr rows
               \<and> res = JObj [(''results'', JArr pages), (''_links'', field d ''_links''),
                             (''size'', field d ''size'')]
               \<and> list_all2 (\<lambda>row p.
                    field p ''id'' = field row ''id''
                  \<and> field p ''title'' = field row ''title''
                  \<and> field p ''status'' = field row ''status''
                  \<and> field p ''spaceId'' = opt_prop (field row ''space'') ''id''
                  \<and> field p ''_links'' = field row ''_links''
                  \<and> field p ''version'' = field row ''version''
                  \<and> field p ''body'' = field row ''body''
                  \<and> (\<exists>kvs. p = JObj kvs \<and> map fst kvs =
                        [''id'', ''title'', ''status'', ''spaceId'', ''_links'', ''version'',
                         ''body'', ''authorId'', ''createdAt''])) rows pages))"
proof -
  have req: "\<lparr>req_base = client_baseURL c, req_method = GET, req_path = ''/content/search'',
              req_params = [(''cql'', JStr (pages_cql spaceKey title)),
                            (''limit'', JNum (or_default limit 25)),
                            (''start'', JNum (or_default start 0)),
                            (''expand'', JStr ''space,version,body.storage'')],
              req_body = JUndefined\<rparr> = listing"
    by (simp add: listing_def c_def ConfluenceClient_def pages_cql_cases or_default_def
        quoted_def split: option.splits)
  have total: "\<exists>res w'. getConfluencePages c spaceKey limit start title w = (Inr res, w')"
    if "server w (sent w) listing = Inr d" and "field d ''results'' = JArr rows"
      and "\<forall>row\<in>set rows. \<not> nullish row" for d rows
    using getConfluencePages_succeeds [of w c spaceKey title limit start d rows] that
    unfolding req by blast
  have shape: "\<exists>d rows pages. server w (sent w) listing = Inr d
        \<and> field d ''results'' = JArr rows
        \<and> res = JObj [(''results'', JArr pages), (''_links'', field d ''_links''),
                      (''size'', field d ''size'')]
        \<and> list_all2 (\<lambda>row p.
             field p ''id'' = field row ''id''
           \<and> field p ''title'' = field row ''title''
           \<and> field p ''status'' = field row ''status''
           \<and> field p ''spaceId'' = opt_prop (field row ''space'') ''id''
           \<and> field p ''_links'' = field row ''_links''
           \<and> field p ''version'' = field row ''version''
           \<and> field p ''body'' = field row ''body''
           \<and> (\<exists>kvs. p = JObj kvs \<and> map fst kvs =
                 [''id'', ''title'', ''status'', ''spaceId'', ''_links'', ''version'',
                  ''body'', ''authorId'', ''createdAt''])) rows pages"
    if "getConfluencePages c spaceKey limit start title w = (Inr res, w')" for res w'
  proof -
    from getConfluencePages_Inr [OF that] obtain d rows pages where
      reply: "server w (sent w) listing = Inr d" "field d ''results'' = JArr rows"
      and run: "map_io (toPage True) rows (w\<lparr>sent := sent w @ [listing]\<rparr>) = (Inr pages, w')"
      and res: "res = JObj [(''results'', JArr pages), (''_links'', field d ''_links''),
                            (''size'', field d ''size'')]"
      unfolding req by blast
    from map_io_toPage [OF run]
    have "list_all2 (\<lambda>row p. \<exists>v v'. toPage True row v = (Inr p, v')
            \<and> clock v = clock (w\<lparr>sent := sent w @ [listing]\<rparr>)
            \<and> clock_reads (w\<lparr>sent := sent w @ [listing]\<rparr>) \<le> clock_reads v) rows pages"
      by simp
    then have "list_all2 (\<lambda>row p.
             field p ''id'' = field row ''id''
           \<and> field p ''title'' = field row ''title''
           \<and> field p ''status'' = field row ''status''
           \<and> field p ''spaceId'' = opt_prop (field row ''space'') ''id''
           \<and> field p ''_links'' = field row ''_links''
           \<and> field p ''version'' = field row ''version''
           \<and> field p ''body'' = field row ''body''
           \<and> (\<exists>kvs. p = JObj kvs \<and> map fst kvs =
                 [''id'', ''title'', ''status'', ''spaceId'', ''_links'', ''version'',
                  ''body'', ''authorId'', ''createdAt''])) rows pages"
    proof (rule list_all2_mono)
      fix row p
      assume "\<exists>v v'. toPage True row v = (Inr p, v')
            \<and> clock v = clock (w\<lparr>sent := sent w @ [listing]\<rparr>)
            \<and> clock_reads (w\<lparr>sent := sent w @ [listing]\<rparr>) \<le> clock_reads v"
      then obtain v v' where run1: "toPage True row v = (Inr p, v')" by blast
      from toPage_fields [OF run1] toPage_keys [OF run1]
      show "field p ''id'' = field row ''id''
           \<and> field p ''title'' = field row ''title''
           \<and> field p ''status'' = field row ''status''
           \<and> field p ''spaceId'' = opt_prop (field row ''space'') ''id''
           \<and> field p ''_links'' = field row ''_links''
           \<and> field p ''version'' = field row ''version''
           \<and> field p ''body'' = field row ''body''
           \<and> (\<exists>kvs. p = JObj kvs \<and> map fst kvs =
                 [''id'', ''title'', ''status'', ''spaceId'', ''_links'', ''version'',
                  ''body'', ''authorId'', ''createdAt''])"
        by simp
    qed
    with reply res show ?thesis by blast
  qed
  have one: "sent (snd (getConfluencePages c spaceKey limit start title w)) = sent w @ [listing]"
    unfolding getConfluencePages_sent req ..
  from one total shape show ?thesis by blast
qed

lemma example_listing_result:
  "\<exists>res w' pages. getConfluencePages (ConfluenceClient example_config) ''DEV'' None None
        (Some ''Road'') (answering page_listing) = (Inr res, w')
     \<and> field res ''results'' = JArr pages \<and> field res ''size'' = JNum 2
     \<and> map (\<lambda>p. field p ''title'') pages = [JStr ''Release notes'', JStr ''Roadmap'']
     \<and> map (\<lambda>p. field p ''spaceId'') pages = [JNum 7, JNum 7]"
  by (simp add: getConfluencePages_def transport_defs example_defs page_defs)

theorem getConfluencePages_query_and_result_witness:
  "map req_params (sent (snd (getConfluencePages (ConfluenceClient example_config) ''DEV''
       None None None (answering page_listing))))
     = [[(''cql'', JStr (''space = '' @ [CHR 0x22] @ ''DEV'' @ [CHR 0x22]
                        @ '' AND type = '' @ [CHR 0x22] @ ''page'' @ [CHR 0x22])),
         (''limit'', JNum 25), (''start'', JNum 0),
         (''expand'', JStr ''space,version,body.storage'')]]
   \<and> map req_params (sent (snd (getConfluencePages (ConfluenceClient example_config) ''DEV''
       (Some 10) (Some 20) (Some ''Road'') (answering page_listing))))
     = [[(''cql'', JStr (''space = '' @ [CHR 0x22] @ ''DEV'' @ [CHR 0x22]
                        @ '' AND type = '' @ [CHR 0x22] @ ''page'' @ [CHR 0x22]
                        @ '' AND title ~ '' @ [CHR 0x22] @ ''Road'' @ [CHR 0x22])),
         (''limit'', JNum 10), (''start'', JNum 20),
         (''expand'', JStr ''space,version,body.storage'')]]
   \<and> (\<not> nullish page_with_history \<and> \<not> nullish page_without_history)
   \<and> (\<exists>res w' pages. getConfluencePages (ConfluenceClient example_config) ''DEV'' None None
        (Some ''Road'') (answering page_listing) = (Inr res, w')
     \<and> field res ''results'' = JArr pages \<and> field res ''size'' = JNum 2
     \<and> map (\<lambda>p. field p ''title'') pages = [JStr ''Release notes'', JStr ''Roadmap'']
     \<and> map (\<lambda>p. field p ''spaceId'') pages = [JNum 7, JNum 7])"
proof -
  have rows: "\<not> nullish page_with_history" "\<not> nullish page_without_history"
    by (simp_all add: page_with_history_def page_without_history_def nullish_def)
  have first: "map req_params (sent (snd (getConfluencePages (ConfluenceClient example_config)
       ''DEV'' None None None (answering page_listing))))
     = [[(''cql'', JStr (''space = '' @ [CHR 0x22] @ ''DEV'' @ [CHR 0x22]
                        @ '' AND type = '' @ [CHR 0x22] @ ''page'' @ [CHR 0x22])),
         (''limit'', JNum 25), (''start'', JNum 0),
         (''expand'', JStr ''space,version,body.storage'')]]"
    using getConfluencePages_query_and_result [where config = example_config
        and spaceKey = "''DEV''" and limit = None and start = None and title = None
        and w = "answering page_listing"]
    by (simp add: answering_def example_world_def)
  have second: "map req_params (sent (snd (getConfluencePages (ConfluenceClient example_config)
       ''DEV'' (Some 10) (Some 20) (Some ''Road'') (answering page_listing))))
     = [[(''cql'', JStr (''space = '' @ [CHR 0x22] @ ''DEV'' @ [CHR 0x22]
                        @ '' AND type = '' @ [CHR 0x22] @ ''page'' @ [CHR 0x22]
                        @ '' AND title ~ '' @ [CHR 0x22] @ ''Road'' @ [CHR 0x22])),
         (''limit'', JNum 10), (''start'', JNum 20),
         (''expand'', JStr ''space,version,body.storage'')]]"
    using getConfluencePages_query_and_result [where config = example_config
        and spaceKey = "''DEV''" and limit = "Some 10" and start = "Some 20"
        and title = "Some ''Road''" and w = "answering page_listing"]
    by (simp add: answering_def example_world_def)
  from rows first second example_listing_result show ?thesis by (intro conjI) assumption+
qed

subsection \<open>Search results\<close>

lemma search_row_value:
  "search_row c row =
     (if nullish row then Inl TypeError
      else Inr (JObj [(''content'',
                        JObj [(''id'', field row ''id''), (''type'', field row ''type''),
                              (''status'', field row ''status''), (''title'', field row ''title''),
                              (''spaceId'', opt_prop (field row ''space'') ''id''),
                              (''_links'', field row ''_links'')]),
                      (''url'',
                        JStr (''https://'' @ domain c @ ''/wiki''
                              @ (if truthy (opt_prop (field row ''_links'') ''webui'')
                                 then js_to_string (opt_prop (field row ''_links'') ''webui'')
                                 else []))),
                      (''lastModified'', opt_prop (field row ''version'') ''when''),
                      (''excerpt'',
                        if truthy (field row ''excerpt'') then field row ''excerpt''
                        else JStr [])]))"
  by (simp add: search_row_def js_or_def)

lemma search_row_fields:
  assumes "search_row c row = Inr e"
  shows "field e ''url'' =
           JStr (''https://'' @ domain c @ ''/wiki''
                 @ (if truthy (opt_prop (field row ''_links'') ''webui'')
                    then js_to_string (opt_prop (field row ''_links'') ''webui'') else []))"
    and "field e ''excerpt'' =
           (if truthy (field row ''excerpt'') then field row ''excerpt'' else JStr [])"
    and "field e ''lastModified'' = opt_prop (field row ''version'') ''when''"
  using assms by (auto simp: search_row_value split: if_splits)

lemma searchConfluenceContent_Inr:
  assumes "searchConfluenceContent c q limit start w = (Inr res, w')"
  shows "\<exists>r d rows entries.
           r = \<lparr>req_base = client_baseURL c, req_method = GET, req_path = ''/content/search'',
                req_params = [(''cql'', JStr (search_cql q)),
                              (''limit'', JNum (or_default limit 25)),
                              (''start'', JNum (or_default start 0)),
                              (''expand'', JStr ''space,version,body.view'')],
                req_body = JUndefined\<rparr>
         \<and> server w (sent w) r = Inr d \<and> \<not> nullish d
         \<and> (if truthy (field d ''results'') then field d ''results'' else JArr []) = JArr rows
         \<and> map_io (\<lambda>row v. (search_row c row, v)) rows (w\<lparr>sent := sent w @ [r]\<rparr>)
             = (Inr entries, w')
         \<and> res = JObj [(''results'', JArr entries),
                       (''_links'', JObj [(''next'', opt_prop (field d ''_links'') ''next''),
                                          (''base'', JStr (baseURL c @ apiPath c))])]"
  using assms
  by (auto simp: searchConfluenceContent_def transport_defs js_or_def
      split: sum.splits prod.splits json.splits if_splits)

lemma map_io_search_row:
  assumes "map_io (\<lambda>row v. (search_row c row, v)) rows w = (Inr entries, w')"
  shows "list_all2 (\<lambda>row e. search_row c row = Inr e) rows entries"
proof -
  have "list_all2 (\<lambda>row e. search_row c row = Inr e) rows entries \<and> True"
    by (rule map_io_list_all2 [where f = "\<lambda>row v. (search_row c row, v)"
          and R = "\<lambda>v row e. search_row c row = Inr e" and I = "\<lambda>v v'. True", OF _ _ _ _ assms])
      auto
  then show ?thesis by simp
qed

lemma searchConfluenceContent_succeeds:
  assumes "server w (sent w)
             \<lparr>req_base = client_baseURL c, req_method = GET, req_path = ''/content/search'',
              req_params = [(''cql'', JStr (search_cql q)),
                            (''limit'', JNum (or_default limit 25)),
                            (''start'', JNum (or_default start 0)),
                            (''expand'', JStr ''space,version,body.view'')],
              req_body = JUndefined\<rparr> = Inr d"
    and "\<not> nullish d"
    and "(if truthy (field d ''results'') then field d ''results'' else JArr []) = JArr rows"
    and "\<And>row. row \<in> set rows \<Longrightarrow> \<not> nullish row"
  shows "\<exists>res w'. searchConfluenceContent c q limit start w = (Inr res, w')"
proof -
  have "\<exists>entries w'. map_io (\<lambda>row v. (search_row c row, v)) rows v0 = (Inr entries, w')" for v0
    by (rule map_io_succeeds) (use assms(4) in \<open>auto simp: search_row_value\<close>)
  then obtain entries w' where
    "map_io (\<lambda>row v. (search_row c row, v)) rows
       (w\<lparr>sent := sent w @
          [\<lparr>req_base = client_baseURL c, req_method = GET, req_path = ''/content/search'',
            req_params = [(''cql'', JStr (search_cql q)),
                          (''limit'', JNum (or_default limit 25)),
                          (''start'', JNum (or_default start 0)),
                          (''expand'', JStr ''space,version,body.view'')],
            req_body = JUndefined\<rparr>]\<rparr>) = (Inr entries, w')"
    by blast
  with assms(1,2,3) show ?thesis
    by (simp add: searchConfluenceContent_def transport_defs js_or_def)
qed

text \<open>
  Claim C7. Every upstream result row of \<open>searchConfluenceContent\<close> becomes one entry,
  in order. Its \<open>url\<close> is \<open>https://{domain}/wiki\<close> followed by the row's
  \<open>_links.webui\<close> (by nothing when the row has none). Its \<open>excerpt\<close> is the row's
  excerpt when the row has one and the empty string when it has none, so it is never
  \<open>null\<close> or \<open>undefined\<close>, and it is a string whenever the upstream excerpt is one or is
  absent. The \<open>_links\<close> of the result hold \<open>next\<close> and \<open>base\<close>, the base being
  \<open>https://{domain}/rest/api\<close>, and nothing else.
\<close>

theorem searchConfluenceContent_entries:
  fixes config :: ConfluenceConfig and q :: string and limit start :: "int option" and w :: world
  defines "c \<equiv> ConfluenceClient config"
  defines "search \<equiv>
     \<lparr>req_base = ''https://'' @ cfg_domain config @ ''/rest/api'', req_method = GET,
      req_path = ''/content/search'',
      req_params = [(''cql'', JStr (search_cql q)),
                    (''limit'', JNum (or_default limit 25)),
                    (''start'', JNum (or_default start 0)),
                    (''expand'', JStr ''space,version,body.view'')],
      req_body = JUndefined\<rparr>"
  defines "entry_of \<equiv> \<lambda>row e.
      (\<forall>s. opt_prop (field row ''_links'') ''webui'' = JStr s \<longrightarrow>
         field e ''url'' = JStr (''https://'' @ cfg_domain config @ ''/wiki'' @ s))
    \<and> (\<not> truthy (opt_prop (field row ''_links'') ''webui'') \<longrightarrow>
         field e ''url'' = JStr (''https://'' @ cfg_domain config @ ''/wiki''))
    \<and> (\<exists>rest. field e ''url'' = JStr (''https://'' @ cfg_domain config @ ''/wiki'' @ rest))
    \<and> (truthy (field row ''excerpt'') \<longrightarrow> field e ''excerpt'' = field row ''excerpt'')
    \<and> (\<not> truthy (field row ''excerpt'') \<longrightarrow> field e ''excerpt'' = JStr [])
    \<and> \<not> nullish (field e ''excerpt'')
    \<and> ((\<exists>s. field row ''excerpt'' = JStr s) \<or> nullish (field row ''excerpt'') \<longrightarrow>
         (\<exists>s. field e ''excerpt'' = JStr s))"
  shows "(\<forall>res w'. searchConfluenceContent c q limit start w = (Inr res, w') \<longrightarrow>
            (\<exists>d rows entries. server w (sent w) search = Inr d
               \<and> (if truthy (field d ''results'') then field d ''results'' else JArr []) = JArr rows
               \<and> field res ''results'' = JArr entries
               \<and> list_all2 entry_of rows entries
               \<and> field res ''_links'' =
                   JObj [(''next'', opt_prop (field d ''_links'') ''next''),
                         (''base'', JStr (''https://'' @ cfg_domain config @ ''/rest/api''))]))
       \<and> (\<forall>d rows. server w (sent w) search = Inr d \<and> \<not> nullish d
              \<and> (if truthy (field d ''results'') then field d ''results'' else JArr []) = JArr rows
              \<and> (\<forall>row\<in>set rows. \<not> nullish row) \<longrightarrow>
            (\<exists>res w'. searchConfluenceContent c q limit start w = (Inr res, w')))"
proof -
  have req: "\<lparr>req_base = client_baseURL c, req_method = GET, req_path = ''/content/search'',
              req_params = [(''cql'', JStr (search_cql q)),
                            (''limit'', JNum (or_default limit 25)),
                            (''start'', JNum (or_default start 0)),
                            (''expand'', JStr ''space,version,body.view'')],
              req_body = JUndefined\<rparr> = search"
    by (simp add: search_def c_def ConfluenceClient_def)
  have dom: "domain c = cfg_domain config"
    and base: "baseURL c @ apiPath c = ''https://'' @ cfg_domain config @ ''/rest/api''"
    by (simp_all add: c_def ConfluenceClient_def)
  have not_nullish: "\<not> nullish v" if "truthy v" for v
    using that by (cases v) (simp_all add: nullish_def)
  have falsy: "\<not> truthy v" if "nullish v" for v
    using that by (auto simp: nullish_def)
  have one: "entry_of row e" if run: "search_row c row = Inr e" for row e
  proof -
    note f = search_row_fields(1,2) [OF run, unfolded dom]
    have url1: "field e ''url'' = JStr (''https://'' @ cfg_domain config @ ''/wiki'' @ s)"
      if "opt_prop (field row ''_links'') ''webui'' = JStr s" for s
      unfolding f(1) using that by simp
    have url2: "field e ''url'' = JStr (''https://'' @ cfg_domain config @ ''/wiki'')"
      if "\<not> truthy (opt_prop (field row ''_links'') ''webui'')"
      unfolding f(1) using that by simp
    have url3: "\<exists>rest. field e ''url'' = JStr (''https://'' @ cfg_domain config @ ''/wiki'' @ rest)"
      unfolding f(1) by simp
    have ex1: "field e ''excerpt'' = field row ''excerpt''" if "truthy (field row ''excerpt'')"
      unfolding f(2) using that by simp
    have ex2: "field e ''excerpt'' = JStr []" if "\<not> truthy (field row ''excerpt'')"
      unfolding f(2) using that by simp
    have ex3: "\<not> nullish (field e ''excerpt'')"
      unfolding f(2) by (auto simp: not_nullish nullish_def)
    have ex4: "\<exists>s. field e ''excerpt'' = JStr s"
      if "(\<exists>s. field row ''excerpt'' = JStr s) \<or> nullish (field row ''excerpt'')"
      unfolding f(2) using that by (auto simp: falsy)
    from url1 url2 url3 ex1 ex2 ex3 ex4 show ?thesis
      unfolding entry_of_def by blast
  qed
  have shape: "\<exists>d rows entries. server w (sent w) search = Inr d
        \<and> (if truthy (field d ''results'') then field d ''results'' else JArr []) = JArr rows
        \<and> field res ''results'' = JArr entries
        \<and> list_all2 entry_of rows entries
        \<and> field res ''_links'' =
            JObj [(''next'', opt_prop (field d ''_links'') ''next''),
                  (''base'', JStr (''https://'' @ cfg_domain config @ ''/rest/api''))]"
    if "searchConfluenceContent c q limit start w = (Inr res, w')" for res w'
  proof -
    from searchConfluenceContent_Inr [OF that] obtain d rows entries where
      reply: "server w (sent w) search = Inr d"
      and rows: "(if truthy (field d ''results'') then field d ''results'' else JArr []) = JArr rows"
      and run: "map_io (\<lambda>row v. (search_row c row, v)) rows (w\<lparr>sent := sent w @ [search]\<rparr>)
                  = (Inr entries, w')"
      and res: "res = JObj [(''results'', JArr entries),
                       (''_links'', JObj [(''next'', opt_prop (field d ''_links'') ''next''),
                                          (''base'', JStr (baseURL c @ apiPath c))])]"
      unfolding req by blast
    from map_io_search_row [OF run] have "list_all2 entry_of rows entries"
      by (rule list_all2_mono) (rule one)
    moreover from res have "field res ''results'' = JArr entries"
      and "field res ''_links'' =
            JObj [(''next'', opt_prop (field d ''_links'') ''next''),
                  (''base'', JStr (''https://'' @ cfg_domain config @ ''/rest/api''))]"
      unfolding base by simp_all
    ultimately show ?thesis using reply rows by blast
  qed
  have total: "\<exists>res w'. searchConfluenceContent c q limit start w = (Inr res, w')"
    if "server w (sent w) search = Inr d" and "\<not> nullish d"
      and "(if truthy (field d ''results'') then field d ''results'' else JArr []) = JArr rows"
      and "\<forall>row\<in>set rows. \<not> nullish row" for d rows
    using searchConfluenceContent_succeeds [of w c q limit start d rows] that
    unfolding req by blast
  from shape total show ?thesis by blast
qed

lemma example_search_result:
  "\<exists>res w' entries. searchConfluenceContent (ConfluenceClient example_config) ''roadmap''
        None None (answering page_listing) = (Inr res, w')
     \<and> field res ''results'' = JArr entries
     \<and> map (\<lambda>e. field e ''url'') entries =
         [JStr ''https://wiki.example.com/wiki/display/DEV/Release+notes'',
          JStr ''https://wiki.example.com/wiki'']
     \<and> map (\<lambda>e. field e ''excerpt'') entries = [JStr ''What changed in 2.4'', JStr []]
     \<and> field res ''_links'' = JObj [(''next'', JStr ''/rest/api/content/search?start=2''),
                                     (''base'', JStr ''https://wiki.example.com/rest/api'')]"
  by (simp add: searchConfluenceContent_def transport_defs example_defs search_row_value
      opt_prop_def nullish_def js_or_def ConfluenceClient_def)

theorem searchConfluenceContent_entries_witness:
  "(\<not> nullish page_with_history \<and> \<not> nullish page_without_history)
   \<and> (\<exists>res w' entries. searchConfluenceContent (ConfluenceClient example_config) ''roadmap''
        None None (answering page_listing) = (Inr res, w')
     \<and> field res ''results'' = JArr entries
     \<and> map (\<lambda>e. field e ''url'') entries =
         [JStr ''https://wiki.example.com/wiki/display/DEV/Release+notes'',
          JStr ''https://wiki.example.com/wiki'']
     \<and> map (\<lambda>e. field e ''excerpt'') entries = [JStr ''What changed in 2.4'', JStr []]
     \<and> field res ''_links'' = JObj [(''next'', JStr ''/rest/api/content/search?start=2''),
                                     (''base'', JStr ''https://wiki.example.com/rest/api'')])"
proof -
  have rows: "\<not> nullish page_with_history" "\<not> nullish page_without_history"
    by (simp_all add: page_with_history_def page_without_history_def nullish_def)
  from rows example_search_result
    searchConfluenceContent_entries [where config = example_config and q = "''roadmap''"
      and limit = None and start = None and w = "answering page_listing"]
  show ?thesis by (intro conjI) assumption+
qed

subsection \<open>Updating a page\<close>

lemma toPage_sent: "sent (snd (toPage with_body page v)) = sent v"
  by (cases "toPage with_body page v") (auto dest: toPage_world(3))

lemma updateConfluencePage_requests:
  fixes c :: client and pageId title content :: string and version :: int and w :: world
  defines "reread \<equiv> \<lparr>req_base = client_baseURL c, req_method = GET,
                       req_path = ''/content/'' @ pageId, req_params = [],
                       req_body = JUndefined\<rparr>"
  shows "sent (snd (updateConfluencePage c pageId title content version w)) =
     (case server w (sent w) reread of
        Inl e \<Rightarrow> sent w @ [reread]
      | Inr currentPage \<Rightarrow>
          sent w @ [reread,
            \<lparr>req_base = client_baseURL c, req_method = PUT, req_path = ''/content/'' @ pageId,
             req_params = [],
             req_body =
               JObj [(''type'', JStr ''page''),
                     (''title'', JStr title),
                     (''body'', JObj [(''storage'', JObj [(''value'', JStr content),
                                        (''representation'', JStr ''storage'')])]),
                     (''version'',
                       JObj [(''number'', JNum (version + 1)),
                             (''message'',
                               JStr (''Updated via MCP at '' @ clock w (clock_reads w)))])]\<rparr>])"
  unfolding reread_def
  by (simp add: updateConfluencePage_def transport_defs now_iso_def update_body_def toPage_sent
      split: sum.splits prod.splits)

text \<open>
  Claim C1. \<open>updateConfluencePage\<close> does re-read the page first and then puts a body
  whose \<open>version.number\<close> is the expected version plus one, with the message
  \<open>Updated via MCP at\<close> and the time. But the page it has just read is not used:
  the body holds \<open>type\<close>, \<open>title\<close>, \<open>body\<close> and \<open>version\<close> only. Here the current
  page carries its space, and the body that is put carries none.
\<close>

theorem updateConfluencePage_ignores_current_page:
  "map (\<lambda>r. (req_method r, req_path r))
       (sent (snd (updateConfluencePage (ConfluenceClient example_config) ''102''
                     ''Roadmap 2025'' ''<p>Q1</p>'' 4 (example_world updating_service))))
     = [(GET, ''/content/102''), (PUT, ''/content/102'')]
   \<and> updating_service [] \<lparr>req_base = ''https://wiki.example.com/rest/api'', req_method = GET,
         req_path = ''/content/102'', req_params = [], req_body = JUndefined\<rparr>
       = Inr page_without_history
   \<and> field page_without_history ''space'' = JObj [(''id'', JNum 7), (''key'', JStr ''DEV'')]
   \<and> req_body (last (sent (snd (updateConfluencePage (ConfluenceClient example_config) ''102''
                     ''Roadmap 2025'' ''<p>Q1</p>'' 4 (example_world updating_service)))))
     = JObj [(''type'', JStr ''page''),
             (''title'', JStr ''Roadmap 2025''),
             (''body'', JObj [(''storage'', JObj [(''value'', JStr ''<p>Q1</p>''),
                                                   (''representation'', JStr ''storage'')])]),
             (''version'', JObj [(''number'', JNum 5),
                (''message'', JStr ''Updated via MCP at 2024-05-01T10:00:00.000Z'')])]
   \<and> field (req_body (last (sent (snd (updateConfluencePage (ConfluenceClient example_config)
                     ''102'' ''Roadmap 2025'' ''<p>Q1</p>'' 4 (example_world updating_service))))))
         ''space'' = JUndefined"
  by (simp add: updateConfluencePage_requests example_defs updating_service_def
      ConfluenceClient_def)

subsection \<open>Requests of the typed client\<close>

lemma TypedConfluenceClient_baseURL:
  "typed_baseURL (TypedConfluenceClient auth) = ''https://'' @ auth_domain auth @ ''/rest/api''"
  by (simp add: TypedConfluenceClient_def)

text \<open>
  Claim C9, as the code has it. Every method of the typed client sends exactly one
  request, on the base \<open>https://{domain}/rest/api\<close>: to \<open>/spaces\<close>, \<open>/pages\<close>,
  \<open>/pages/{id}/body\<close> with \<open>body_format = storage\<close>, and \<open>/pages/{id}/labels\<close>; a
  label is added as the single object \<open>{name}\<close> and removed by the path segment
  \<open>/labels/{name}\<close>.
\<close>

theorem typed_client_requests:
  fixes auth :: ConfluenceAuth and w :: world
  defines "c \<equiv> TypedConfluenceClient auth"
  defines "base \<equiv> ''https://'' @ auth_domain auth @ ''/rest/api''"
  shows "sent (snd (getSpaces c limit start w)) = sent w @
           [\<lparr>req_base = base, req_method = GET, req_path = ''/spaces'',
             req_params = [(''limit'', JNum (or_default limit 25)),
                           (''start'', JNum (or_default start 0))],
             req_body = JUndefined\<rparr>]
       \<and> sent (snd (getSpace c spaceId w)) = sent w @
           [\<lparr>req_base = base, req_method = GET, req_path = ''/spaces/'' @ spaceId,
             req_params = [], req_body = JUndefined\<rparr>]
       \<and> sent (snd (getPages c spaceId limit start w)) = sent w @
           [\<lparr>req_base = base, req_method = GET, req_path = ''/pages'',
             req_params = [(''spaceId'', JStr spaceId),
                           (''limit'', JNum (or_default limit 25)),
                           (''start'', JNum (or_default start 0)),
                           (''status'', JStr ''current'')],
             req_body = JUndefined\<rparr>]
       \<and> sent (snd (getPage c pageId w)) = sent w @
           [\<lparr>req_base = base, req_method = GET, req_path = ''/pages/'' @ pageId,
             req_params = [], req_body = JUndefined\<rparr>]
       \<and> sent (snd (getPageContent_typed c pageId w)) = sent w @
           [\<lparr>req_base = base, req_method = GET, req_path = ''/pages/'' @ pageId @ ''/body'',
             req_params = [(''body_format'', JStr ''storage'')], req_body = JUndefined\<rparr>]
       \<and> sent (snd (createPage c spaceId title content parentId w)) = sent w @
           [\<lparr>req_base = base, req_method = POST, req_path = ''/pages'', req_params = [],
             req_body = JObj ([(''spaceId'', JStr spaceId), (''status'', JStr ''current''),
                               (''title'', JStr title),
                               (''body'', JObj [(''representation'', JStr ''storage''),
                                                (''value'', JStr content)])]
                              @ (case parentId of None \<Rightarrow> []
                                 | Some p \<Rightarrow> if p = [] then [] else [(''parentId'', JStr p)]))\<rparr>]
       \<and> sent (snd (updatePage c pageId title content version w)) = sent w @
           [\<lparr>req_base = base, req_method = PUT, req_path = ''/pages/'' @ pageId, req_params = [],
             req_body = JObj [(''id'', JStr pageId), (''status'', JStr ''current''),
                              (''title'', JStr title),
                              (''body'', JObj [(''representation'', JStr ''storage''),
                                               (''value'', JStr content)]),
                              (''version'',
                                JObj [(''number'', JNum (version + 1)),
                                      (''message'',
                                        JStr (''Updated via MCP at ''
                                              @ clock w (clock_reads w)))])]\<rparr>]
       \<and> sent (snd (searchContent c query limit start w)) = sent w @
           [\<lparr>req_base = base, req_method = GET, req_path = ''/search'',
             req_params = [(''cql'', JStr query),
                           (''limit'', JNum (or_default limit 25)),
                           (''start'', JNum (or_default start 0))],
             req_body = JUndefined\<rparr>]
       \<and> sent (snd (getLabels c pageId w)) = sent w @
           [\<lparr>req_base = base, req_method = GET, req_path = ''/pages/'' @ pageId @ ''/labels'',
             req_params = [], req_body = JUndefined\<rparr>]
       \<and> sent (snd (addLabel c pageId label w)) = sent w @
           [\<lparr>req_base = base, req_method = POST, req_path = ''/pages/'' @ pageId @ ''/labels'',
             req_params = [], req_body = JObj [(''name'', JStr label)]\<rparr>]
       \<and> sent (snd (removeLabel c pageId label w)) = sent w @
           [\<lparr>req_base = base, req_method = DELETE,
             req_path = ''/pages/'' @ pageId @ ''/labels/'' @ label,
             req_params = [], req_body = JUndefined\<rparr>]"
proof -
  have b: "typed_baseURL c = base"
    by (simp add: c_def base_def TypedConfluenceClient_baseURL)
  show ?thesis
    by (simp add: getSpaces_def getSpace_def getPages_def getPage_def getPageContent_typed_def
        createPage_def updatePage_def searchContent_def getLabels_def addLabel_def
        removeLabel_def transport_defs b now_iso_def when_given_def
        split: sum.splits prod.splits)
qed

text \<open>
  Claim C9, as the specification has it, asks for an \<open>/api/v2\<close> base path. The
  base the typed client sends \<open>getSpaces\<close> to is \<open>https://wiki.example.com/rest/api\<close>,
  in which \<open>/api/v2\<close> does not occur.
\<close>

theorem typed_client_base_counterexample:
  "req_base (last (sent (snd (getSpaces (TypedConfluenceClient example_auth) None None
       (answering (JObj [(''results'', JArr [])]))))))
     = ''https://wiki.example.com/rest/api''
   \<and> \<not> str_includes
         (req_base (last (sent (snd (getSpaces (TypedConfluenceClient example_auth) None None
            (answering (JObj [(''results'', JArr [])])))))))
         ''/api/v2''"
  by (simp add: getSpaces_def transport_defs TypedConfluenceClient_def example_auth_def
      answering_def example_world_def)

end
